theory Spec2Isabelle
  imports Complex_Main "HOL-Library.AList"
begin

section \<open>Configuration constants of trading\_bot.py\<close>

definition POSITION_SIZE_PCT :: real where "POSITION_SIZE_PCT = 0.05"
definition MAX_PORTFOLIO_RISK :: real where "MAX_PORTFOLIO_RISK = 0.5"
definition BUYING_COMMISSION :: real where "BUYING_COMMISSION = 0.001"
definition SELLING_COMMISSION :: real where "SELLING_COMMISSION = 0.001"
definition MAX_OPEN_TRADES :: nat where "MAX_OPEN_TRADES = 5"
definition RSI_PERIOD :: nat where "RSI_PERIOD = 10"
definition RSI_OVERBOUGHT :: real where "RSI_OVERBOUGHT = 70"
definition RSI_OVERSOLD :: real where "RSI_OVERSOLD = 30"
definition MACD_SLOW :: nat where "MACD_SLOW = 21"
definition BBANDS_PERIOD :: nat where "BBANDS_PERIOD = 15"
definition STOCH_K :: nat where "STOCH_K = 10"

text \<open>Exceptions are values of the type \<open>error\<close>.\<close>

datatype error = TypeError | KeyError | ZeroDivisionError | ValueError | OverflowError

section \<open>Floats\<close>

text \<open>
  A float is a finite number, an infinity or nan. Rounding to the nearest float is not
  part of the model: the result of an operation on finite numbers is its exact value,
  unless that exceeds the largest float \<open>FLOAT_MAX\<close> in magnitude, when it is an
  infinity. Signed zeros are not told apart. Where a function takes a \<open>real\<close>, the
  argument is a finite float.
\<close>

datatype npfloat = Finite real | PosInf | NegInf | NaN

definition FLOAT_MAX :: real where "FLOAT_MAX = (2 ^ 53 - 1) * 2 ^ 971"

definition fl_round :: "real \<Rightarrow> npfloat" where
  "fl_round x = (if x > FLOAT_MAX then PosInf else if x < - FLOAT_MAX then NegInf else Finite x)"

fun sign_of :: "npfloat \<Rightarrow> real" where
  "sign_of (Finite x) = sgn x"
| "sign_of PosInf = 1"
| "sign_of NegInf = - 1"
| "sign_of NaN = 0"

text \<open>The infinity of a sign; nan where the sign is 0 (0 times inf, 0 / 0).\<close>

definition signed_inf :: "real \<Rightarrow> npfloat" where
  "signed_inf s = (if s > 0 then PosInf else if s < 0 then NegInf else NaN)"

fun fl_mul :: "npfloat \<Rightarrow> npfloat \<Rightarrow> npfloat" where
  "fl_mul NaN b = NaN"
| "fl_mul a NaN = NaN"
| "fl_mul (Finite x) (Finite y) = fl_round (x * y)"
| "fl_mul a b = signed_inf (sign_of a * sign_of b)"

fun fl_add :: "npfloat \<Rightarrow> npfloat \<Rightarrow> npfloat" where
  "fl_add NaN b = NaN"
| "fl_add a NaN = NaN"
| "fl_add (Finite x) (Finite y) = fl_round (x + y)"
| "fl_add PosInf NegInf = NaN"
| "fl_add NegInf PosInf = NaN"
| "fl_add (Finite x) b = b"
| "fl_add a b = a"

fun fl_neg :: "npfloat \<Rightarrow> npfloat" where
  "fl_neg (Finite x) = Finite (- x)"
| "fl_neg PosInf = NegInf"
| "fl_neg NegInf = PosInf"
| "fl_neg NaN = NaN"

definition fl_sub :: "npfloat \<Rightarrow> npfloat \<Rightarrow> npfloat" where
  "fl_sub a b = fl_add a (fl_neg b)"

text \<open>
  Division as numpy does it on arrays: a zero divisor raises nothing, the quotient is an
  infinity, or nan for 0 / 0. Python's own \<open>/\<close> on floats is the same except that it
  raises ZeroDivisionError for a zero divisor; the functions below test for that first.
\<close>

fun np_divide :: "npfloat \<Rightarrow> npfloat \<Rightarrow> npfloat" where
  "np_divide NaN b = NaN"
| "np_divide a NaN = NaN"
| "np_divide (Finite x) (Finite y) = (if y = 0 then signed_inf (sgn x) else fl_round (x / y))"
| "np_divide (Finite x) b = Finite 0"
| "np_divide a (Finite y) = signed_inf (sign_of a * (if y < 0 then - 1 else 1))"
| "np_divide a b = NaN"

text \<open>\<open>a < b\<close> and \<open>a <= b\<close>: every comparison with nan is false.\<close>

fun np_less :: "npfloat \<Rightarrow> npfloat \<Rightarrow> bool" where
  "np_less (Finite x) (Finite y) = (x < y)"
| "np_less NegInf (Finite y) = True"
| "np_less NegInf PosInf = True"
| "np_less (Finite x) PosInf = True"
| "np_less a b = False"

fun np_le :: "npfloat \<Rightarrow> npfloat \<Rightarrow> bool" where
  "np_le NaN b = False"
| "np_le a NaN = False"
| "np_le (Finite x) (Finite y) = (x \<le> y)"
| "np_le NegInf b = True"
| "np_le a PosInf = True"
| "np_le a b = False"

text \<open>Python's builtin \<open>max(a, b)\<close> and \<open>min(a, b)\<close>: \<open>a\<close> unless \<open>b\<close> compares beyond it.\<close>

definition py_max :: "npfloat \<Rightarrow> npfloat \<Rightarrow> npfloat" where
  "py_max a b = (if np_less a b then b else a)"

definition py_min :: "npfloat \<Rightarrow> npfloat \<Rightarrow> npfloat" where
  "py_min a b = (if np_less b a then b else a)"

text \<open>\<open>math.floor\<close>: it raises OverflowError for an infinity and ValueError for nan.\<close>

fun math_floor :: "npfloat \<Rightarrow> error + int" where
  "math_floor (Finite x) = Inr \<lfloor>x\<rfloor>"
| "math_floor NaN = Inl ValueError"
| "math_floor a = Inl OverflowError"

section \<open>Position sizing: SimulationBot.calculate\_trade\_amount\<close>

text \<open>
  Lines 853-860, on finite arguments. The division of line 854 is made only for a
  positive divisor. The products of \<open>portfolio_value\<close> with the two constants, both below
  1, do not overflow; every other operation may. Line 858 raises ZeroDivisionError for the
  price 0, and \<open>math.floor\<close> in line 859 raises when its argument is an infinity or nan.
  The floor is that of the exact number, and the quotient of the integer by 10000 in
  line 859 is finite.
\<close>

definition calculate_trade_amount :: "real \<Rightarrow> real \<Rightarrow> real \<Rightarrow> real \<Rightarrow> real \<Rightarrow> error + real" where
  "calculate_trade_amount price portfolio_value score total_score current_position_value =
     (let score_weight = (if total_score > 0 then np_divide (Finite score) (Finite total_score)
                          else Finite 1.0);
          risk_amount = fl_mul (Finite (portfolio_value * POSITION_SIZE_PCT)) score_weight;
          available_risk = py_max (Finite 0)
                             (fl_round (portfolio_value * MAX_PORTFOLIO_RISK - current_position_value));
          risk_amount = py_min risk_amount available_risk
      in if price = 0 then Inl ZeroDivisionError
         else case math_floor (fl_mul (np_divide risk_amount (Finite price)) (Finite 10000)) of
                Inl e \<Rightarrow> Inl e
              | Inr n \<Rightarrow> Inr (max 0.001 (real_of_int n / 10000)))"

text \<open>The headroom under the risk cap, as line 856 computes it, in exact arithmetic.\<close>

definition available_risk :: "real \<Rightarrow> real \<Rightarrow> real" where
  "available_risk portfolio_value current_position_value =
     max 0 (portfolio_value * MAX_PORTFOLIO_RISK - current_position_value)"

text \<open>The capped risk amount of line 857, in exact arithmetic.\<close>

definition exact_risk_amount :: "real \<Rightarrow> real \<Rightarrow> real \<Rightarrow> real \<Rightarrow> real" where
  "exact_risk_amount portfolio_value score total_score current_position_value =
     min (portfolio_value * POSITION_SIZE_PCT * (if total_score > 0 then score / total_score else 1))
         (available_risk portfolio_value current_position_value)"

text \<open>
  No intermediate result of lines 854-859 exceeds the largest float in magnitude: the
  score weight, the risk amount, the difference of line 856, the quantity of line 858 and
  its product with 10000.
\<close>

definition no_overflow :: "real \<Rightarrow> real \<Rightarrow> real \<Rightarrow> real \<Rightarrow> real \<Rightarrow> bool" where
  "no_overflow price portfolio_value score total_score current_position_value =
     (\<bar>if total_score > 0 then score / total_score else 1\<bar> \<le> FLOAT_MAX
      \<and> \<bar>portfolio_value * POSITION_SIZE_PCT * (if total_score > 0 then score / total_score else 1)\<bar> \<le> FLOAT_MAX
      \<and> \<bar>portfolio_value * MAX_PORTFOLIO_RISK - current_position_value\<bar> \<le> FLOAT_MAX
      \<and> \<bar>exact_risk_amount portfolio_value score total_score current_position_value / price\<bar> \<le> FLOAT_MAX
      \<and> \<bar>exact_risk_amount portfolio_value score total_score current_position_value / price * 10000\<bar> \<le> FLOAT_MAX)"

section \<open>Exceptions and mutable state\<close>

text \<open>
  A method that mutates its object and may raise is a function from the object's state to
  a result and the state the call leaves behind: what was mutated before an exception
  stays mutated, as in Python.
\<close>

definition bind_exn :: "('s \<Rightarrow> (error + 'a) \<times> 's) \<Rightarrow> ('a \<Rightarrow> 's \<Rightarrow> (error + 'b) \<times> 's) \<Rightarrow> 's \<Rightarrow> (error + 'b) \<times> 's" where
  "bind_exn m f s = (case m s of (Inl e, s') \<Rightarrow> (Inl e, s') | (Inr a, s') \<Rightarrow> f a s')"

definition return_exn :: "'a \<Rightarrow> 's \<Rightarrow> (error + 'a) \<times> 's" where
  "return_exn a s = (Inr a, s)"

definition raise_exn :: "error \<Rightarrow> 's \<Rightarrow> (error + 'a) \<times> 's" where
  "raise_exn e s = (Inl e, s)"

section \<open>AutonomousStrategy: data\<close>

type_synonym coin = string

datatype signal = BUY | SELL | HOLD

datatype position = CASH | HOLDING

text \<open>The five entries of \<open>available_strategies\<close> (lines 480-486), in that order.\<close>

datatype strategy_name = Mean_reversion | Macd_crossover | Rsi_strategy | Bollinger_bands | Combined

definition available_strategies :: "strategy_name list" where
  "available_strategies = [Mean_reversion, Macd_crossover, Rsi_strategy, Bollinger_bands, Combined]"

text \<open>The dictionary that \<open>get_strategy_state\<close> creates for a coin (lines 517-525).\<close>

record asset_state =
  no :: int
  price_mean :: real
  position_status :: position
  buy_price :: "real option"
  stop_loss_price :: "npfloat option"
  take_profit_price :: "npfloat option"
  active_strategy :: strategy_name

text \<open>
  The fields of the object (lines 474-486). A price buffer may hold any float. The two
  score dictionaries of a coin always hold exactly the five strategy names (lines 529-530
  are the only place that creates them and no key is ever removed), so each is a function
  of the strategy name.
\<close>

record AutonomousStrategy =
  lookback_period :: int
  strategies :: "coin \<rightharpoonup> asset_state"
  price_data :: "coin \<rightharpoonup> npfloat list"
  strategy_performance :: "coin \<rightharpoonup> (strategy_name \<Rightarrow> real)"
  strategy_trade_count :: "coin \<rightharpoonup> (strategy_name \<Rightarrow> int)"

definition AutonomousStrategy_init :: "int \<Rightarrow> AutonomousStrategy" where
  "AutonomousStrategy_init lookback =
     \<lparr>lookback_period = lookback, strategies = Map.empty, price_data = Map.empty,
      strategy_performance = Map.empty, strategy_trade_count = Map.empty\<rparr>"

text \<open>
  What a variable \<open>state\<close> holds after \<open>state = self.get_strategy_state(coin)\<close>: Python's
  \<open>None\<close>, or the dictionary object stored under \<open>self.strategies[coin]\<close>. The object is
  shared, so a reference is the key of the store \<open>strategies\<close>; reads and writes through
  \<open>state\<close> go to the store.
\<close>

datatype state_ref = PyNone | Ref coin

text \<open>
  \<open>state[...]\<close>: subscripting \<open>None\<close> raises TypeError. No entry of the store is ever
  deleted, so a reference that \<open>get_strategy_state\<close> returned always finds its record.
\<close>

definition getitem :: "state_ref \<Rightarrow> AutonomousStrategy \<Rightarrow> (error + asset_state) \<times> AutonomousStrategy" where
  "getitem state S =
     (case state of
        PyNone \<Rightarrow> (Inl TypeError, S)
      | Ref c \<Rightarrow> (case strategies S c of None \<Rightarrow> (Inl TypeError, S) | Some st \<Rightarrow> (Inr st, S)))"

text \<open>\<open>state[field] = value\<close>, the assignment given as the update of the record.\<close>

definition setitem :: "state_ref \<Rightarrow> (asset_state \<Rightarrow> asset_state) \<Rightarrow> AutonomousStrategy \<Rightarrow> (error + unit) \<times> AutonomousStrategy" where
  "setitem state upd S =
     (case state of
        PyNone \<Rightarrow> (Inl TypeError, S)
      | Ref c \<Rightarrow> (case strategies S c of
                   None \<Rightarrow> (Inl TypeError, S)
                 | Some st \<Rightarrow> (Inr (), S\<lparr>strategies := (strategies S)(c \<mapsto> upd st)\<rparr>)))"

section \<open>AutonomousStrategy: asset state and price buffer\<close>

text \<open>
  Lines 515-531. \<open>choice\<close> is what \<open>random.choice(self.available_strategies)\<close> returns.
  The \<open>return\<close> of line 531 is inside the \<open>if\<close> of line 516: when the coin is already in
  \<open>self.strategies\<close> the function falls off its end and returns \<open>None\<close>.
\<close>

definition get_strategy_state :: "strategy_name \<Rightarrow> coin \<Rightarrow> AutonomousStrategy \<Rightarrow> state_ref \<times> AutonomousStrategy" where
  "get_strategy_state choice c S =
     (if strategies S c = None then
        let S1 = S\<lparr>strategies := (strategies S)(c \<mapsto>
                     \<lparr>no = 0, price_mean = 0, position_status = CASH, buy_price = None,
                      stop_loss_price = None, take_profit_price = None,
                      active_strategy = choice\<rparr>)\<rparr>;
            S2 = (if price_data S1 c = None
                  then S1\<lparr>price_data := (price_data S1)(c \<mapsto> [])\<rparr> else S1);
            S3 = (if strategy_performance S2 c = None
                  then S2\<lparr>strategy_performance := (strategy_performance S2)(c \<mapsto> (\<lambda>strat. 0.1)),
                          strategy_trade_count := (strategy_trade_count S2)(c \<mapsto> (\<lambda>strat. 1))\<rparr>
                  else S2)
        in (Ref c, S3)
      else (PyNone, S))"

text \<open>The call as a step that cannot raise.\<close>

definition call_get_strategy_state :: "strategy_name \<Rightarrow> coin \<Rightarrow> AutonomousStrategy \<Rightarrow> (error + state_ref) \<times> AutonomousStrategy" where
  "call_get_strategy_state choice c S =
     (case get_strategy_state choice c S of (state, S') \<Rightarrow> (Inr state, S'))"

text \<open>Lines 533-536; \<open>self.price_data[coin]\<close> raises KeyError for an unknown coin.\<close>

definition update_price_data :: "coin \<Rightarrow> npfloat \<Rightarrow> AutonomousStrategy \<Rightarrow> (error + unit) \<times> AutonomousStrategy" where
  "update_price_data c price S =
     (case price_data S c of
        None \<Rightarrow> (Inl KeyError, S)
      | Some ps \<Rightarrow>
          let ps1 = ps @ [price];
              ps2 = (if length ps1 > max (max (max RSI_PERIOD MACD_SLOW) BBANDS_PERIOD) STOCH_K + 10
                     then tl ps1 else ps1)
          in (Inr (), S\<lparr>price_data := (price_data S)(c \<mapsto> ps2)\<rparr>))"

text \<open>Lines 569-576.\<close>

definition update_price_mean :: "strategy_name \<Rightarrow> coin \<Rightarrow> real \<Rightarrow> AutonomousStrategy \<Rightarrow> (error + unit) \<times> AutonomousStrategy" where
  "update_price_mean choice c price =
     bind_exn (call_get_strategy_state choice c) (\<lambda>state.
     bind_exn (update_price_data c (Finite price)) (\<lambda>_.
     bind_exn (getitem state) (\<lambda>st.
     bind_exn (if price_mean st = 0
               then setitem state (\<lambda>s. s\<lparr>price_mean := price\<rparr>)
               else if no st + 1 = 0 then raise_exn ZeroDivisionError
               else setitem state (\<lambda>s. s\<lparr>price_mean := (price_mean s * real_of_int (no s) + price) / real_of_int (no s + 1)\<rparr>)) (\<lambda>_.
     setitem state (\<lambda>s. s\<lparr>no := no s + 1\<rparr>)))))"

section \<open>Risk levels\<close>

text \<open>\<open>np.diff(prices)\<close>: the differences of neighbouring samples.\<close>

fun np_diff :: "npfloat list \<Rightarrow> npfloat list" where
  "np_diff (a # b # xs) = fl_sub b a # np_diff (b # xs)"
| "np_diff _ = []"

text \<open>\<open>np.diff(prices) / prices[:-1]\<close>, elementwise.\<close>

definition np_returns :: "npfloat list \<Rightarrow> npfloat list" where
  "np_returns prices = map2 np_divide (np_diff prices) (butlast prices)"

text \<open>The numbers of an array whose entries are all finite.\<close>

fun finite_values :: "npfloat list \<Rightarrow> real list option" where
  "finite_values [] = Some []"
| "finite_values (Finite x # rs) = map_option ((#) x) (finite_values rs)"
| "finite_values (a # rs) = None"

text \<open>
  \<open>np.std\<close>, the population standard deviation. An entry that is an infinity or nan makes
  the result nan (the mean is then an infinity or nan, and the deviation of that entry
  nan), as does an empty array. On finite entries the two sums are taken as exact sums:
  the result is the exact value, or inf where the sum of the entries or of the squared
  deviations exceeds the largest float. The order in which numpy adds, and with it the
  overflow of a partial sum, is not part of the model.
\<close>

definition np_std :: "npfloat list \<Rightarrow> npfloat" where
  "np_std rs =
     (case finite_values rs of
        None \<Rightarrow> NaN
      | Some xs \<Rightarrow>
          if xs = [] then NaN
          else let n = real (length xs);
                   mean = sum_list xs / n;
                   squares = sum_list (map (\<lambda>x. (x - mean)\<^sup>2) xs)
               in if \<bar>sum_list xs\<bar> \<le> FLOAT_MAX \<and> squares \<le> FLOAT_MAX
                  then Finite (sqrt (squares / n)) else PosInf)"

text \<open>\<open>self.price_data.get(coin, [])\<close>.\<close>

definition price_buffer :: "AutonomousStrategy \<Rightarrow> coin \<Rightarrow> npfloat list" where
  "price_buffer S c = (case price_data S c of None \<Rightarrow> [] | Some ps \<Rightarrow> ps)"

text \<open>Lines 488-505. \<open>entry_price\<close> is not used by the function.\<close>

definition calculate_risk_levels :: "coin \<Rightarrow> real \<Rightarrow> AutonomousStrategy \<Rightarrow> npfloat \<times> npfloat" where
  "calculate_risk_levels c entry_price S =
     (let prices = price_buffer S c
      in if length prices < 10 then (Finite 0.01, Finite 0.03)
         else
           let returns = np_returns prices;
               volatility = (if length returns > 0 then np_std returns else Finite 0.01);
               stop_loss_pct = py_min (py_max (fl_mul (Finite 1.5) volatility) (Finite 0.01)) (Finite 0.05);
               min_take_profit = (BUYING_COMMISSION + SELLING_COMMISSION) + 0.001;
               take_profit_pct = py_max (fl_mul (Finite 2.5) stop_loss_pct) (Finite min_take_profit)
           in (stop_loss_pct, take_profit_pct))"

text \<open>Lines 507-513.\<close>

definition set_risk_levels :: "strategy_name \<Rightarrow> coin \<Rightarrow> real \<Rightarrow> AutonomousStrategy \<Rightarrow> (error + unit) \<times> AutonomousStrategy" where
  "set_risk_levels choice c entry_price =
     bind_exn (call_get_strategy_state choice c) (\<lambda>state S.
       case calculate_risk_levels c entry_price S of
         (stop_loss_pct, take_profit_pct) \<Rightarrow>
           bind_exn (setitem state (\<lambda>s. s\<lparr>buy_price := Some entry_price\<rparr>)) (\<lambda>_.
           bind_exn (setitem state (\<lambda>s. s\<lparr>stop_loss_price :=
                       Some (fl_mul (Finite entry_price) (fl_sub (Finite 1) stop_loss_pct))\<rparr>)) (\<lambda>_.
           setitem state (\<lambda>s. s\<lparr>take_profit_price :=
                       Some (fl_mul (Finite entry_price) (fl_add (Finite 1) take_profit_pct))\<rparr>))) S)"

section \<open>Indicators\<close>

text \<open>
  The dictionary that \<open>calculate_indicators\<close> returns (lines 558-567). A value is nan
  while the window of its indicator is not filled.
\<close>

record indicators =
  rsi :: npfloat
  macd :: npfloat
  macd_signal :: npfloat
  bb_upper :: npfloat
  bb_middle :: npfloat
  bb_lower :: npfloat
  stoch_k :: npfloat
  stoch_d :: npfloat

text \<open>
  Lines 538-567. The indicator values come from the library talib, which is not part of
  the repository: \<open>talib\<close> is the function from the price buffer to the eight values.
\<close>

definition calculate_indicators :: "(npfloat list \<Rightarrow> indicators) \<Rightarrow> coin \<Rightarrow> AutonomousStrategy \<Rightarrow> (error + indicators option) \<times> AutonomousStrategy" where
  "calculate_indicators talib c S =
     (case price_data S c of
        None \<Rightarrow> (Inl KeyError, S)
      | Some prices \<Rightarrow>
          if length prices < max (max (max RSI_PERIOD MACD_SLOW) BBANDS_PERIOD) STOCH_K + 1
          then (Inr None, S)
          else (Inr (Some (talib prices)), S))"

section \<open>The strategy functions\<close>

text \<open>
  The check that all five functions make first when the position is open
  (lines 599-605, 632-638, 666-672, 700-706, 734-740): \<open>True\<close> stands for the
  \<open>return "SELL"\<close> of the stop-loss or take-profit branch. Comparing a number with
  \<open>None\<close> raises TypeError.
\<close>

definition exit_check :: "asset_state \<Rightarrow> real \<Rightarrow> AutonomousStrategy \<Rightarrow> (error + bool) \<times> AutonomousStrategy" where
  "exit_check st price =
     (if position_status st = HOLDING then
        (case stop_loss_price st of
           None \<Rightarrow> raise_exn TypeError
         | Some sl \<Rightarrow>
             if np_le (Finite price) sl then return_exn True
             else (case take_profit_price st of
                     None \<Rightarrow> raise_exn TypeError
                   | Some tp \<Rightarrow> if np_le tp (Finite price) then return_exn True else return_exn False))
      else return_exn False)"

text \<open>
  The four assignments of every strategy-specific SELL branch
  (lines 615-620, 651-656, 685-690, 719-724, 758-763).
\<close>

definition clear_position :: "asset_state \<Rightarrow> asset_state" where
  "clear_position s = s\<lparr>position_status := CASH, buy_price := None,
                        stop_loss_price := None, take_profit_price := None\<rparr>"

text \<open>
  Lines 609-610 and alike: the two statements of every BUY branch that change state.
\<close>

definition enter_position :: "strategy_name \<Rightarrow> state_ref \<Rightarrow> coin \<Rightarrow> real \<Rightarrow> AutonomousStrategy \<Rightarrow> (error + signal) \<times> AutonomousStrategy" where
  "enter_position choice state c price =
     bind_exn (setitem state (\<lambda>s. s\<lparr>position_status := HOLDING\<rparr>)) (\<lambda>_.
     bind_exn (set_risk_levels choice c (price * 1.001)) (\<lambda>_.
     return_exn BUY))"

text \<open>
  Each strategy function is its first statement, \<open>state = self.get_strategy_state(coin)\<close>,
  followed by the rest of its body; the rest is a definition of its own, with \<open>state\<close> as
  an argument, so that a branch of the body can be evaluated for a given \<open>state\<close>.
\<close>

text \<open>Lines 596-625.\<close>

definition mean_reversion_body :: "strategy_name \<Rightarrow> state_ref \<Rightarrow> coin \<Rightarrow> real \<Rightarrow> AutonomousStrategy \<Rightarrow> (error + signal) \<times> AutonomousStrategy" where
  "mean_reversion_body choice state c price =
     bind_exn (getitem state) (\<lambda>st S.
       if no st \<le> lookback_period S then return_exn HOLD S
       else bind_exn (exit_check st price) (\<lambda>triggered.
              if triggered then return_exn SELL
              else if price_mean st > price \<and> position_status st = CASH then
                enter_position choice state c price
              else if price > price_mean st \<and> position_status st = HOLDING then
                (case buy_price st of
                   None \<Rightarrow> raise_exn TypeError
                 | Some bp \<Rightarrow>
                     if price > bp * 1.003
                     then bind_exn (setitem state clear_position) (\<lambda>_. return_exn SELL)
                     else return_exn HOLD)
              else return_exn HOLD) S)"

definition mean_reversion_strategy :: "strategy_name \<Rightarrow> coin \<Rightarrow> real \<Rightarrow> indicators option \<Rightarrow> AutonomousStrategy \<Rightarrow> (error + signal) \<times> AutonomousStrategy" where
  "mean_reversion_strategy choice c price inds =
     bind_exn (call_get_strategy_state choice c) (\<lambda>state. mean_reversion_body choice state c price)"

text \<open>
  In the four functions below \<open>not indicators\<close> is tested before \<open>state["no"]\<close> is
  read (lines 629, 663, 697, 731): without indicators they return HOLD whatever \<open>state\<close>
  is. \<open>a > b\<close> on indicator values is \<open>np_less b a\<close>.
\<close>

text \<open>Lines 629-659.\<close>

definition macd_crossover_body :: "strategy_name \<Rightarrow> state_ref \<Rightarrow> coin \<Rightarrow> real \<Rightarrow> indicators option \<Rightarrow> AutonomousStrategy \<Rightarrow> (error + signal) \<times> AutonomousStrategy" where
  "macd_crossover_body choice state c price inds =
     (case inds of
        None \<Rightarrow> return_exn HOLD
      | Some i \<Rightarrow>
          bind_exn (getitem state) (\<lambda>st S.
            if no st \<le> lookback_period S then return_exn HOLD S
            else bind_exn (exit_check st price) (\<lambda>triggered.
                   if triggered then return_exn SELL
                   else if np_less (macd_signal i) (macd i) \<and> np_less (rsi i) (Finite RSI_OVERBOUGHT) \<and> position_status st = CASH then
                     enter_position choice state c price
                   else if np_less (macd i) (macd_signal i) \<and> np_less (Finite RSI_OVERSOLD) (rsi i) \<and> position_status st = HOLDING then
                     bind_exn (setitem state clear_position) (\<lambda>_. return_exn SELL)
                   else return_exn HOLD) S))"

definition macd_crossover_strategy :: "strategy_name \<Rightarrow> coin \<Rightarrow> real \<Rightarrow> indicators option \<Rightarrow> AutonomousStrategy \<Rightarrow> (error + signal) \<times> AutonomousStrategy" where
  "macd_crossover_strategy choice c price inds =
     bind_exn (call_get_strategy_state choice c) (\<lambda>state. macd_crossover_body choice state c price inds)"

text \<open>Lines 663-693.\<close>

definition rsi_body :: "strategy_name \<Rightarrow> state_ref \<Rightarrow> coin \<Rightarrow> real \<Rightarrow> indicators option \<Rightarrow> AutonomousStrategy \<Rightarrow> (error + signal) \<times> AutonomousStrategy" where
  "rsi_body choice state c price inds =
     (case inds of
        None \<Rightarrow> return_exn HOLD
      | Some i \<Rightarrow>
          bind_exn (getitem state) (\<lambda>st S.
            if no st \<le> lookback_period S then return_exn HOLD S
            else bind_exn (exit_check st price) (\<lambda>triggered.
                   if triggered then return_exn SELL
                   else if np_less (rsi i) (Finite RSI_OVERSOLD) \<and> np_less (stoch_k i) (Finite 20) \<and> np_less (stoch_d i) (stoch_k i) \<and> position_status st = CASH then
                     enter_position choice state c price
                   else if np_less (Finite RSI_OVERBOUGHT) (rsi i) \<and> np_less (Finite 80) (stoch_k i) \<and> np_less (stoch_k i) (stoch_d i) \<and> position_status st = HOLDING then
                     bind_exn (setitem state clear_position) (\<lambda>_. return_exn SELL)
                   else return_exn HOLD) S))"

definition rsi_strategy :: "strategy_name \<Rightarrow> coin \<Rightarrow> real \<Rightarrow> indicators option \<Rightarrow> AutonomousStrategy \<Rightarrow> (error + signal) \<times> AutonomousStrategy" where
  "rsi_strategy choice c price inds =
     bind_exn (call_get_strategy_state choice c) (\<lambda>state. rsi_body choice state c price inds)"

text \<open>Lines 697-727.\<close>

definition bollinger_bands_body :: "strategy_name \<Rightarrow> state_ref \<Rightarrow> coin \<Rightarrow> real \<Rightarrow> indicators option \<Rightarrow> AutonomousStrategy \<Rightarrow> (error + signal) \<times> AutonomousStrategy" where
  "bollinger_bands_body choice state c price inds =
     (case inds of
        None \<Rightarrow> return_exn HOLD
      | Some i \<Rightarrow>
          bind_exn (getitem state) (\<lambda>st S.
            if no st \<le> lookback_period S then return_exn HOLD S
            else bind_exn (exit_check st price) (\<lambda>triggered.
                   if triggered then return_exn SELL
                   else if np_less (Finite price) (bb_lower i) \<and> np_less (rsi i) (Finite RSI_OVERSOLD) \<and> position_status st = CASH then
                     enter_position choice state c price
                   else if np_less (bb_upper i) (Finite price) \<and> np_less (Finite RSI_OVERBOUGHT) (rsi i) \<and> position_status st = HOLDING then
                     bind_exn (setitem state clear_position) (\<lambda>_. return_exn SELL)
                   else return_exn HOLD) S))"

definition bollinger_bands_strategy :: "strategy_name \<Rightarrow> coin \<Rightarrow> real \<Rightarrow> indicators option \<Rightarrow> AutonomousStrategy \<Rightarrow> (error + signal) \<times> AutonomousStrategy" where
  "bollinger_bands_strategy choice c price inds =
     bind_exn (call_get_strategy_state choice c) (\<lambda>state. bollinger_bands_body choice state c price inds)"

text \<open>
  Lines 731-766. The three inner calls are calls of the methods, each of which fetches
  its own \<open>state\<close>; the position status is read from the shared record after them.
\<close>

definition combined_body :: "strategy_name \<Rightarrow> state_ref \<Rightarrow> coin \<Rightarrow> real \<Rightarrow> indicators option \<Rightarrow> AutonomousStrategy \<Rightarrow> (error + signal) \<times> AutonomousStrategy" where
  "combined_body choice state c price inds =
     (case inds of
        None \<Rightarrow> return_exn HOLD
      | Some i \<Rightarrow>
          bind_exn (getitem state) (\<lambda>st S.
            if no st \<le> lookback_period S then return_exn HOLD S
            else bind_exn (exit_check st price) (\<lambda>triggered.
                   if triggered then return_exn SELL
                   else
                     bind_exn (macd_crossover_strategy choice c price inds) (\<lambda>s1.
                     bind_exn (rsi_strategy choice c price inds) (\<lambda>s2.
                     bind_exn (bollinger_bands_strategy choice c price inds) (\<lambda>s3.
                     bind_exn (getitem state) (\<lambda>st'.
                       let signals = [s1, s2, s3];
                           buy_count = count_list signals BUY;
                           sell_count = count_list signals SELL
                       in if buy_count \<ge> 2 \<and> position_status st' = CASH then
                            enter_position choice state c price
                          else if sell_count \<ge> 2 \<and> position_status st' = HOLDING then
                            bind_exn (setitem state clear_position) (\<lambda>_. return_exn SELL)
                          else return_exn HOLD))))) S))"

definition combined_strategy :: "strategy_name \<Rightarrow> coin \<Rightarrow> real \<Rightarrow> indicators option \<Rightarrow> AutonomousStrategy \<Rightarrow> (error + signal) \<times> AutonomousStrategy" where
  "combined_strategy choice c price inds =
     bind_exn (call_get_strategy_state choice c) (\<lambda>state. combined_body choice state c price inds)"

section \<open>Strategy scores and signal generation\<close>

text \<open>
  \<open>self.strategy_performance[coin][strategy] += amount\<close> followed by
  \<open>self.strategy_trade_count[coin][strategy] += 1\<close> (lines 770-771 and 773-774).
\<close>

definition add_score :: "coin \<Rightarrow> strategy_name \<Rightarrow> real \<Rightarrow> AutonomousStrategy \<Rightarrow> (error + unit) \<times> AutonomousStrategy" where
  "add_score c strat amount S =
     (case strategy_performance S c of
        None \<Rightarrow> (Inl KeyError, S)
      | Some perf \<Rightarrow>
          let S1 = S\<lparr>strategy_performance := (strategy_performance S)(c \<mapsto> perf(strat := perf strat + amount))\<rparr>
          in (case strategy_trade_count S1 c of
                None \<Rightarrow> (Inl KeyError, S1)
              | Some cnt \<Rightarrow>
                  (Inr (), S1\<lparr>strategy_trade_count := (strategy_trade_count S1)(c \<mapsto> cnt(strat := cnt strat + 1))\<rparr>)))"

definition decay_factor :: real where "decay_factor = 0.99"

text \<open>The loop of lines 777-778 over the five keys of the coin's score dictionary.\<close>

fun decay_loop :: "strategy_name list \<Rightarrow> (strategy_name \<Rightarrow> real) \<Rightarrow> (strategy_name \<Rightarrow> real)" where
  "decay_loop [] perf = perf"
| "decay_loop (strat # strats) perf = decay_loop strats (perf(strat := perf strat * decay_factor))"

definition apply_decay :: "coin \<Rightarrow> AutonomousStrategy \<Rightarrow> (error + unit) \<times> AutonomousStrategy" where
  "apply_decay c S =
     (case strategy_performance S c of
        None \<Rightarrow> (Inl KeyError, S)
      | Some perf \<Rightarrow>
          (Inr (), S\<lparr>strategy_performance := (strategy_performance S)(c \<mapsto> decay_loop available_strategies perf)\<rparr>))"

text \<open>Lines 768-778; \<open>profit_pct\<close> is 0 when the caller leaves it out.\<close>

definition update_strategy_performance :: "coin \<Rightarrow> strategy_name \<Rightarrow> signal \<Rightarrow> real \<Rightarrow> AutonomousStrategy \<Rightarrow> (error + unit) \<times> AutonomousStrategy" where
  "update_strategy_performance c strat sig profit_pct =
     bind_exn (if sig = SELL \<and> profit_pct \<noteq> 0 then add_score c strat profit_pct
               else if sig = BUY then add_score c strat 0.1
               else return_exn ()) (\<lambda>_.
     apply_decay c)"

text \<open>
  \<open>max(normalized_scores, key=normalized_scores.get)\<close>: the first key, in the order of the
  dictionary, whose value no later key exceeds; ValueError on an empty dictionary.
\<close>

fun max_by_key :: "('a \<Rightarrow> real) \<Rightarrow> 'a list \<Rightarrow> error + 'a" where
  "max_by_key key [] = Inl ValueError"
| "max_by_key key (x # xs) = Inr (foldl (\<lambda>best y. if key y > key best then y else best) x xs)"

text \<open>
  Lines 578-592. \<open>u\<close> is what \<open>random.random()\<close> returns and \<open>explore\<close> what
  \<open>random.choice\<close> returns in line 583.
\<close>

definition select_best_strategy :: "strategy_name \<Rightarrow> real \<Rightarrow> strategy_name \<Rightarrow> coin \<Rightarrow> AutonomousStrategy \<Rightarrow> (error + strategy_name) \<times> AutonomousStrategy" where
  "select_best_strategy choice u explore c =
     bind_exn (call_get_strategy_state choice c) (\<lambda>state.
     bind_exn (\<lambda>S. if u < 0.3 then (Inr explore, S)
                   else (case strategy_performance S c of
                           None \<Rightarrow> (Inl KeyError, S)
                         | Some perf \<Rightarrow>
                             (case strategy_trade_count S c of
                                None \<Rightarrow> (Inl KeyError, S)
                              | Some cnt \<Rightarrow>
                                  (max_by_key (\<lambda>strat. perf strat / real_of_int (if cnt strat = 0 then 1 else cnt strat))
                                     available_strategies, S)))) (\<lambda>best_strategy.
     bind_exn (setitem state (\<lambda>s. s\<lparr>active_strategy := best_strategy\<rparr>)) (\<lambda>_.
     return_exn best_strategy)))"

text \<open>
  The loop of lines 795-800 over the items of \<open>signals\<close>; \<open>state\<close> is the variable of
  line 781. A \<open>buy_price\<close> that is \<open>None\<close> or 0 is falsy.
\<close>

fun update_all_strategies :: "state_ref \<Rightarrow> coin \<Rightarrow> real \<Rightarrow> (strategy_name \<times> signal) list \<Rightarrow> AutonomousStrategy \<Rightarrow> (error + unit) \<times> AutonomousStrategy" where
  "update_all_strategies state c price [] = return_exn ()"
| "update_all_strategies state c price ((strat, sig) # rest) =
     bind_exn (if sig = SELL then
                 bind_exn (getitem state) (\<lambda>st.
                   case buy_price st of
                     Some bp \<Rightarrow>
                       if position_status st = HOLDING \<and> bp \<noteq> 0
                       then update_strategy_performance c strat sig ((price / bp - 1) * 100)
                       else return_exn ()
                   | None \<Rightarrow> return_exn ())
               else if sig = BUY then update_strategy_performance c strat sig 0
               else return_exn ()) (\<lambda>_.
     update_all_strategies state c price rest)"

text \<open>Lines 780-805.\<close>

definition generate_signal :: "(npfloat list \<Rightarrow> indicators) \<Rightarrow> strategy_name \<Rightarrow> real \<Rightarrow> strategy_name \<Rightarrow> coin \<Rightarrow> real \<Rightarrow> AutonomousStrategy \<Rightarrow> (error + signal) \<times> AutonomousStrategy" where
  "generate_signal talib choice u explore c price =
     bind_exn (call_get_strategy_state choice c) (\<lambda>state.
     bind_exn (calculate_indicators talib c) (\<lambda>inds.
     bind_exn (select_best_strategy choice u explore c) (\<lambda>active.
     bind_exn (mean_reversion_strategy choice c price inds) (\<lambda>s_mean.
     bind_exn (macd_crossover_strategy choice c price inds) (\<lambda>s_macd.
     bind_exn (rsi_strategy choice c price inds) (\<lambda>s_rsi.
     bind_exn (bollinger_bands_strategy choice c price inds) (\<lambda>s_bb.
     bind_exn (combined_strategy choice c price inds) (\<lambda>s_comb.
       let signals = [(Mean_reversion, s_mean), (Macd_crossover, s_macd), (Rsi_strategy, s_rsi),
                      (Bollinger_bands, s_bb), (Combined, s_comb)]
       in bind_exn (update_all_strategies state c price signals) (\<lambda>_.
          return_exn (case active of
                        Mean_reversion \<Rightarrow> s_mean | Macd_crossover \<Rightarrow> s_macd | Rsi_strategy \<Rightarrow> s_rsi
                      | Bollinger_bands \<Rightarrow> s_bb | Combined \<Rightarrow> s_comb))))))))))"

section \<open>SimulationBot: the ledger\<close>

text \<open>
  The dictionary \<open>trade\<close> that \<open>simulate_trade\<close> builds (lines 887-898, 919-931 and
  938-949), without its timestamp: \<open>cash_moved\<close> is the entry \<open>cash_spent\<close> of a BUY and
  \<open>cash_received\<close> of a SELL, \<open>total\<close> is \<open>total_cost\<close> or \<open>net_proceeds\<close>, and
  \<open>profit_pct\<close> is \<open>None\<close> where the dictionary has no such key.
\<close>

record trade =
  action :: signal
  trade_coin :: coin
  trade_pair :: string
  trade_price :: real
  amount :: real
  cash_moved :: real
  commission :: real
  total :: real
  cash_balance :: real
  profit_pct :: "real option"

text \<open>
  The fields of the object (lines 829-839). \<open>portfolio_values\<close> is the list of the risk
  manager. \<open>holdings\<close> is iterated, so it is a list of items in insertion order.
  The trade file, the trade history and the order placement (lines 899-902 and 950-953) are
  collaborators that catch their own exceptions: \<open>trade_log\<close> is the list of trades handed
  to them.
\<close>

record SimulationBot =
  strategy :: AutonomousStrategy
  portfolio_values :: "real list"
  cash :: real
  holdings :: "(coin \<times> real) list"
  entry_prices :: "coin \<rightharpoonup> real list"
  initial_portfolio_value :: real
  trade_count :: int
  profitable_trades :: int
  trade_log :: "trade list"


text \<open>\<open>prices.get(coin, 0)\<close>.\<close>

definition price_of :: "(coin \<rightharpoonup> real) \<Rightarrow> coin \<Rightarrow> real" where
  "price_of prices c = (case prices c of None \<Rightarrow> 0 | Some p \<Rightarrow> p)"

text \<open>\<open>self.holdings.get(coin, 0)\<close>.\<close>

definition held :: "SimulationBot \<Rightarrow> coin \<Rightarrow> real" where
  "held B c = (case map_of (holdings B) c of None \<Rightarrow> 0 | Some a \<Rightarrow> a)"

text \<open>The entry-price queue of a coin; a coin without an entry has no entry price.\<close>

definition queue :: "SimulationBot \<Rightarrow> coin \<Rightarrow> real list" where
  "queue B c = (case entry_prices B c of None \<Rightarrow> [] | Some q \<Rightarrow> q)"

text \<open>Lines 841-843.\<close>

definition get_open_trades_count :: "SimulationBot \<Rightarrow> nat" where
  "get_open_trades_count B = length (filter (\<lambda>(c, amount). amount > 0) (holdings B))"

text \<open>Lines 845-851.\<close>

definition update_portfolio_value :: "(coin \<rightharpoonup> real) \<Rightarrow> SimulationBot \<Rightarrow> real \<times> SimulationBot" where
  "update_portfolio_value prices B =
     (let portfolio_value = foldl (\<lambda>pv (c, amount). pv + amount * price_of prices c) (cash B) (holdings B)
      in (portfolio_value, B\<lparr>portfolio_values := portfolio_values B @ [portfolio_value]\<rparr>))"

text \<open>The sum of line 864 over the items of \<open>holdings\<close> with a positive amount.\<close>

definition current_position_value :: "(coin \<rightharpoonup> real) \<Rightarrow> SimulationBot \<Rightarrow> real" where
  "current_position_value prices B =
     sum_list (map (\<lambda>(c, amount). amount * price_of prices c)
                   (filter (\<lambda>(c, amount). amount > 0) (holdings B)))"

text \<open>Lines 867-870: a coin seen for the first time gets the amount 0 and an empty queue.\<close>

definition ensure_keys :: "coin \<Rightarrow> SimulationBot \<Rightarrow> SimulationBot" where
  "ensure_keys c B =
     (let B2 = (if map_of (holdings B) c = None
                then B\<lparr>holdings := holdings B @ [(c, 0)]\<rparr> else B)
      in if entry_prices B2 c = None
         then B2\<lparr>entry_prices := (entry_prices B2)(c \<mapsto> [])\<rparr> else B2)"

text \<open>
  Lines 934-935, on the strategy object: \<open>state["active_strategy"]\<close> is evaluated
  before the call of \<open>update_strategy_performance\<close>.
\<close>

definition feed_back_profit :: "strategy_name \<Rightarrow> coin \<Rightarrow> real \<Rightarrow> AutonomousStrategy \<Rightarrow> (error + unit) \<times> AutonomousStrategy" where
  "feed_back_profit choice c pct =
     bind_exn (call_get_strategy_state choice c) (\<lambda>state.
     bind_exn (getitem state) (\<lambda>st.
     update_strategy_performance c (active_strategy st) SELL pct))"

text \<open>
  Lines 862-954. The call \<open>append_price_history\<close> of line 873 writes a file and catches
  its own exceptions; it has no part in the model. After \<open>ensure_keys\<close> the coin is a key of
  \<open>holdings\<close> and of \<open>entry_prices\<close>, so \<open>self.holdings[coin]\<close> is \<open>held\<close> and
  \<open>self.entry_prices[coin]\<close> is \<open>queue\<close>.
\<close>

definition simulate_trade :: "strategy_name \<Rightarrow> coin \<Rightarrow> string \<Rightarrow> signal \<Rightarrow> real \<Rightarrow> real \<Rightarrow> real \<Rightarrow> (coin \<rightharpoonup> real) \<Rightarrow> SimulationBot \<Rightarrow> (error + unit) \<times> SimulationBot" where
  "simulate_trade choice c pair sig price score total_score prices B =
     (case update_portfolio_value prices B of (portfolio_value, B1) \<Rightarrow>
      let position_value = current_position_value prices B1
      in case calculate_trade_amount price portfolio_value score total_score position_value of
           Inl e \<Rightarrow> (Inl e, B1)
         | Inr trade_amount \<Rightarrow>
             let B3 = ensure_keys c B1
             in if sig = BUY \<and> cash B3 \<ge> trade_amount * price * (1 + BUYING_COMMISSION) then
                  if get_open_trades_count B3 \<ge> MAX_OPEN_TRADES then (Inr (), B3)
                  else
                    let new_position_value = trade_amount * price
                    in if position_value + new_position_value \<le> portfolio_value * MAX_PORTFOLIO_RISK then
                         let purchase_amount = trade_amount * price;
                             fee = purchase_amount * BUYING_COMMISSION;
                             total_cost = purchase_amount + fee;
                             B4 = B3\<lparr>holdings := AList.update c (held B3 c + trade_amount) (holdings B3),
                                     cash := cash B3 - total_cost,
                                     entry_prices := (entry_prices B3)(c \<mapsto> queue B3 c @ [price])\<rparr>;
                             t = \<lparr>action = BUY, trade_coin = c, trade_pair = pair, trade_price = price,
                                  amount = trade_amount, cash_moved = purchase_amount, commission = fee,
                                  total = total_cost, cash_balance = cash B4, profit_pct = None\<rparr>
                         in (Inr (), B4\<lparr>trade_log := trade_log B4 @ [t]\<rparr>)
                       else (Inr (), B3)
                else if sig = SELL \<and> held B3 c \<ge> trade_amount then
                  let sale_amount = held B3 c * price;
                      fee = sale_amount * SELLING_COMMISSION;
                      net_proceeds = sale_amount - fee;
                      trade_amount = held B3 c;
                      B4 = B3\<lparr>holdings := AList.update c 0 (holdings B3),
                              cash := cash B3 + net_proceeds,
                              trade_count := trade_count B3 + 1\<rparr>
                  in (case queue B4 c of
                        entry_price # rest \<Rightarrow>
                          let B5 = B4\<lparr>entry_prices := (entry_prices B4)(c \<mapsto> rest)\<rparr>;
                              buy_cost = trade_amount * entry_price * (1 + BUYING_COMMISSION);
                              profit = net_proceeds - buy_cost;
                              pct = (if buy_cost \<noteq> 0 then (net_proceeds / buy_cost - 1) * 100 else 0);
                              t = \<lparr>action = SELL, trade_coin = c, trade_pair = pair, trade_price = price,
                                   amount = trade_amount, cash_moved = sale_amount, commission = fee,
                                   total = net_proceeds, cash_balance = cash B5, profit_pct = Some pct\<rparr>;
                              B6 = (if profit > 0 then B5\<lparr>profitable_trades := profitable_trades B5 + 1\<rparr> else B5)
                          in (case feed_back_profit choice c pct (strategy B6) of
                                (Inl e, S') \<Rightarrow> (Inl e, B6\<lparr>strategy := S'\<rparr>)
                              | (Inr _, S') \<Rightarrow> (Inr (), B6\<lparr>strategy := S', trade_log := trade_log B6 @ [t]\<rparr>))
                      | [] \<Rightarrow>
                          let t = \<lparr>action = SELL, trade_coin = c, trade_pair = pair, trade_price = price,
                                   amount = trade_amount, cash_moved = sale_amount, commission = fee,
                                   total = net_proceeds, cash_balance = cash B4, profit_pct = None\<rparr>
                          in (Inr (), B4\<lparr>trade_log := trade_log B4 @ [t]\<rparr>))
                else (Inr (), B3))"

text \<open>
  A sequence of BUY attempts, each with its arguments
  \<open>(coin, pair, price, score, total_score, prices)\<close>, applied one after the other; an
  attempt that raises leaves its state to the next one, as the loop of \<open>run_simulation\<close>
  catches the exception and goes on (lines 988-989).
\<close>

fun buy_attempts :: "strategy_name \<Rightarrow> (coin \<times> string \<times> real \<times> real \<times> real \<times> (coin \<rightharpoonup> real)) list \<Rightarrow> SimulationBot \<Rightarrow> SimulationBot" where
  "buy_attempts choice [] B = B"
| "buy_attempts choice ((c, pair, price, score, total_score, prices) # rest) B =
     buy_attempts choice rest (snd (simulate_trade choice c pair BUY price score total_score prices B))"

section \<open>Observations and example states\<close>

text \<open>\<open>self.strategy_performance[coin][strategy]\<close>, read.\<close>

definition performance_of :: "AutonomousStrategy \<Rightarrow> coin \<Rightarrow> strategy_name \<Rightarrow> error + real" where
  "performance_of S c strat =
     (case strategy_performance S c of None \<Rightarrow> Inl KeyError | Some perf \<Rightarrow> Inr (perf strat))"

text \<open>The same call made \<open>n\<close> times in a row, stopping at the first exception.\<close>

fun repeat_calls :: "nat \<Rightarrow> ('s \<Rightarrow> (error + unit) \<times> 's) \<Rightarrow> 's \<Rightarrow> (error + unit) \<times> 's" where
  "repeat_calls 0 m = return_exn ()"
| "repeat_calls (Suc n) m = bind_exn m (\<lambda>_. repeat_calls n m)"

text \<open>Indicator values on which the MACD rule says BUY.\<close>

definition bullish :: indicators where
  "bullish = \<lparr>rsi = Finite 50, macd = Finite 1, macd_signal = Finite 0, bb_upper = Finite 110,
              bb_middle = Finite 100, bb_lower = Finite 90, stoch_k = Finite 50, stoch_d = Finite 50\<rparr>"

definition talib_bullish :: "npfloat list \<Rightarrow> indicators" where
  "talib_bullish prices = bullish"

text \<open>
  A strategy object that knows the coin BTC after 21 prices of 100, with no open
  position.
\<close>

definition cash_example :: AutonomousStrategy where
  "cash_example =
     \<lparr>lookback_period = 20,
      strategies = [''BTC'' \<mapsto> \<lparr>no = 21, price_mean = 100, position_status = CASH,
                                 buy_price = None, stop_loss_price = None,
                                 take_profit_price = None, active_strategy = Combined\<rparr>],
      price_data = [''BTC'' \<mapsto> replicate 21 (Finite 100)],
      strategy_performance = [''BTC'' \<mapsto> (\<lambda>strat. 0.1)],
      strategy_trade_count = [''BTC'' \<mapsto> (\<lambda>strat. 1)]\<rparr>"

text \<open>
  The prices of a list handed to \<open>update_price_data\<close> one after the other, stopping at
  the first exception.
\<close>

fun update_price_data_each :: "coin \<Rightarrow> npfloat list \<Rightarrow> AutonomousStrategy \<Rightarrow> (error + unit) \<times> AutonomousStrategy" where
  "update_price_data_each c [] = return_exn ()"
| "update_price_data_each c (p # ps) = bind_exn (update_price_data c p) (\<lambda>_. update_price_data_each c ps)"

text \<open>A new strategy object after its first \<open>get_strategy_state\<close> for BTC.\<close>

definition new_coin_example :: AutonomousStrategy where
  "new_coin_example = snd (get_strategy_state Combined ''BTC'' (AutonomousStrategy_init 20))"

text \<open>That object after ten prices of 0.\<close>

definition zero_price_example :: AutonomousStrategy where
  "zero_price_example =
     snd (update_price_data_each ''BTC''
            [Finite 0, Finite 0, Finite 0, Finite 0, Finite 0,
             Finite 0, Finite 0, Finite 0, Finite 0, Finite 0] new_coin_example)"

text \<open>
  After the price 1e-300 followed by nine prices of 1e10: the first return,
  \<open>(1e10 - 1e-300) / 1e-300\<close>, exceeds the largest float.
\<close>

definition overflow_price_example :: AutonomousStrategy where
  "overflow_price_example =
     snd (update_price_data_each ''BTC''
            [Finite (1 / 10 ^ 300), Finite (10 ^ 10), Finite (10 ^ 10), Finite (10 ^ 10),
             Finite (10 ^ 10), Finite (10 ^ 10), Finite (10 ^ 10), Finite (10 ^ 10),
             Finite (10 ^ 10), Finite (10 ^ 10)] new_coin_example)"

text \<open>After nine prices of 100 followed by a price that is nan.\<close>

definition nan_price_example :: AutonomousStrategy where
  "nan_price_example =
     snd (update_price_data_each ''BTC''
            [Finite 100, Finite 100, Finite 100, Finite 100, Finite 100,
             Finite 100, Finite 100, Finite 100, Finite 100, NaN] new_coin_example)"

text \<open>The five signals of a cycle in which no strategy signals a trade.\<close>

definition all_hold :: "(strategy_name \<times> signal) list" where
  "all_hold = [(Mean_reversion, HOLD), (Macd_crossover, HOLD), (Rsi_strategy, HOLD),
               (Bollinger_bands, HOLD), (Combined, HOLD)]"



text \<open>A bot that holds 1 BTC, entered at 100, and cash 10000.\<close>

definition one_coin_example :: SimulationBot where
  "one_coin_example =
     \<lparr>strategy = AutonomousStrategy_init 20, portfolio_values = [], cash = 10000,
      holdings = [(''BTC'', 1)], entry_prices = [''BTC'' \<mapsto> [100]],
      initial_portfolio_value = 10100, trade_count = 0, profitable_trades = 0, trade_log = []\<rparr>"

text \<open>A bot with five open positions of 1 coin each and cash 10000.\<close>

definition five_coins_example :: SimulationBot where
  "five_coins_example =
     \<lparr>strategy = AutonomousStrategy_init 20, portfolio_values = [], cash = 10000,
      holdings = [(''BTC'', 1), (''ETH'', 1), (''LTC'', 1), (''SOL'', 1), (''ADA'', 1)],
      entry_prices = [''BTC'' \<mapsto> [100], ''ETH'' \<mapsto> [100], ''LTC'' \<mapsto> [100],
                      ''SOL'' \<mapsto> [100], ''ADA'' \<mapsto> [100]],
      initial_portfolio_value = 10500, trade_count = 0, profitable_trades = 0, trade_log = []\<rparr>"

text \<open>Prices of 100 for the five coins and for DOT.\<close>

definition flat_prices :: "coin \<rightharpoonup> real" where
  "flat_prices = [''BTC'' \<mapsto> 100, ''ETH'' \<mapsto> 100, ''LTC'' \<mapsto> 100, ''SOL'' \<mapsto> 100,
                  ''ADA'' \<mapsto> 100, ''DOT'' \<mapsto> 100]"

section \<open>Verified properties: position sizing\<close>

lemma FLOAT_MAX_pos: "0 < FLOAT_MAX"
  by (simp add: FLOAT_MAX_def)

lemma fl_round_within: "\<bar>x\<bar> \<le> FLOAT_MAX \<Longrightarrow> fl_round x = Finite x"
  by (auto simp: fl_round_def)

lemma fl_mul_Finite:
  "fl_mul a b = Finite u \<Longrightarrow>
   \<bar>u\<bar> \<le> FLOAT_MAX \<and> (\<exists>x y. a = Finite x \<and> b = Finite y \<and> u = x * y)"
  by (cases a; cases b) (auto simp: fl_round_def signed_inf_def split: if_splits)

lemma np_divide_Finite:
  "np_divide a (Finite p) = Finite y \<Longrightarrow> p \<noteq> 0 \<Longrightarrow> \<exists>z. a = Finite z \<and> y = z / p"
  by (cases a) (auto simp: fl_round_def signed_inf_def split: if_splits)

lemma math_floor_Inr: "math_floor a = Inr n \<Longrightarrow> \<exists>x. a = Finite x \<and> n = \<lfloor>x\<rfloor>"
  by (cases a) auto

text \<open>Where nothing overflows, the function returns the value of the exact formula.\<close>

lemma calculate_trade_amount_exact:
  assumes "price \<noteq> 0" and "no_overflow price pv score ts cpv"
  shows "calculate_trade_amount price pv score ts cpv
           = Inr (max 0.001 (real_of_int \<lfloor>exact_risk_amount pv score ts cpv / price * 10000\<rfloor> / 10000))"
proof -
  define w where "w = (if ts > 0 then score / ts else 1)"
  have w: "(if ts > 0 then np_divide (Finite score) (Finite ts) else Finite 1.0) = Finite w"
    using assms(2) by (auto simp: w_def no_overflow_def fl_round_within)
  have a: "fl_mul (Finite (pv * POSITION_SIZE_PCT)) (Finite w) = Finite (pv * POSITION_SIZE_PCT * w)"
    using assms(2) by (simp add: w_def no_overflow_def fl_round_within)
  have v: "py_max (Finite 0) (fl_round (pv * MAX_PORTFOLIO_RISK - cpv)) = Finite (available_risk pv cpv)"
    using assms(2) by (auto simp: no_overflow_def fl_round_within py_max_def available_risk_def)
  have r: "py_min (Finite (pv * POSITION_SIZE_PCT * w)) (Finite (available_risk pv cpv))
             = Finite (exact_risk_amount pv score ts cpv)"
    by (auto simp: py_min_def exact_risk_amount_def w_def)
  have d: "np_divide (Finite (exact_risk_amount pv score ts cpv)) (Finite price)
             = Finite (exact_risk_amount pv score ts cpv / price)"
    using assms by (simp add: no_overflow_def fl_round_within)
  have m: "fl_mul (Finite (exact_risk_amount pv score ts cpv / price)) (Finite 10000)
             = Finite (exact_risk_amount pv score ts cpv / price * 10000)"
    using assms(2) by (simp add: no_overflow_def fl_round_within)
  show ?thesis
    unfolding calculate_trade_amount_def Let_def w a v r d m
    using assms(1) by simp
qed

text \<open>Whenever the function returns, the quantity is at least 0.001.\<close>

lemma calculate_trade_amount_returns_minimum:
  "calculate_trade_amount price pv score ts cpv = Inr q \<Longrightarrow> 0.001 \<le> q"
  by (auto simp: calculate_trade_amount_def Let_def split: if_splits sum.splits)

text \<open>
  C9, as stated: for every positive price and all values of the other arguments the
  function returns a quantity of at least 0.001. It fails for the price 1e-305 with
  portfolio value 10000, scores 1 and 1 and no position: the quantity 500 / 1e-305 is
  finite, its product with 10000 is not, and \<open>math.floor\<close> raises OverflowError.
\<close>

theorem calculate_trade_amount_overflow_counterexample:
  "(0::real) < 1 / 10 ^ 305
   \<and> calculate_trade_amount (1 / 10 ^ 305) 10000 1 1 0 = Inl OverflowError"
  by (simp add: calculate_trade_amount_def Let_def POSITION_SIZE_PCT_def MAX_PORTFOLIO_RISK_def
        fl_round_def FLOAT_MAX_def py_max_def py_min_def)

text \<open>
  C9, amended: for every positive price and all finite values of the other arguments for
  which no intermediate result of the computation exceeds the largest float in
  magnitude, \<open>calculate_trade_amount\<close> returns (it does not raise) a quantity of at least
  0.001, also when the remaining risk headroom is zero: the minimum is applied with \<open>max\<close>
  after the risk capping.
\<close>

theorem calculate_trade_amount_at_least_minimum:
  assumes "0 < price"
    and "no_overflow price portfolio_value score total_score position_value"
  shows "\<exists>q. calculate_trade_amount price portfolio_value score total_score position_value = Inr q
            \<and> 0.001 \<le> q"
  using calculate_trade_amount_exact [OF _ assms(2)] assms(1) by simp

lemma no_overflow_example: "no_overflow 100 1000 1 1 500"
  by (simp add: no_overflow_def exact_risk_amount_def available_risk_def POSITION_SIZE_PCT_def
        MAX_PORTFOLIO_RISK_def FLOAT_MAX_def)

theorem calculate_trade_amount_at_least_minimum_witness:
  "(0::real) < 100 \<and> no_overflow 100 1000 1 1 500 \<and> available_risk 1000 500 = 0
   \<and> (\<exists>q. calculate_trade_amount 100 1000 1 1 500 = Inr q \<and> 0.001 \<le> q)"
  using calculate_trade_amount_at_least_minimum [of 100 1000 1 1 500] no_overflow_example
  by (simp add: available_risk_def MAX_PORTFOLIO_RISK_def)

text \<open>
  C2, as stated: the cost of the returned quantity is at most \<open>available_risk\<close>. It fails
  when the headroom is smaller than the cost of the minimum quantity: with portfolio value
  1000 and positions worth 500 the headroom is 0, and the function returns 0.001 at price
  100, a cost of 0.1.
\<close>

theorem calculate_trade_amount_cost_counterexample:
  "calculate_trade_amount 100 1000 1 1 500 = Inr 0.001
   \<and> \<not> (0.001 * 100 \<le> available_risk 1000 500)"
  using calculate_trade_amount_exact [OF _ no_overflow_example]
  by (simp add: exact_risk_amount_def available_risk_def POSITION_SIZE_PCT_def MAX_PORTFOLIO_RISK_def)

text \<open>What the capping of lines 856-857 leaves is at most the exact headroom.\<close>

lemma headroom_bound:
  assumes "py_min a (py_max (Finite 0) (fl_round e)) = Finite z"
    and "\<And>u. a = Finite u \<Longrightarrow> \<bar>u\<bar> \<le> FLOAT_MAX"
  shows "z \<le> max 0 e"
  using assms FLOAT_MAX_pos
  by (cases a) (auto simp: py_min_def py_max_def fl_round_def split: if_splits)

text \<open>
  C2, amended: for every positive price the returned quantity is either the minimum
  quantity 0.001 or has a cost of at most \<open>available_risk\<close>.
\<close>

theorem calculate_trade_amount_cost_bound:
  assumes "0 < price"
    and "calculate_trade_amount price portfolio_value score total_score position_value = Inr q"
  shows "q = 0.001 \<or> q * price \<le> available_risk portfolio_value position_value"
proof -
  define a where "a = fl_mul (Finite (portfolio_value * POSITION_SIZE_PCT))
                        (if total_score > 0 then np_divide (Finite score) (Finite total_score) else Finite 1.0)"
  define r where "r = py_min a (py_max (Finite 0)
                        (fl_round (portfolio_value * MAX_PORTFOLIO_RISK - position_value)))"
  from assms obtain n where
    n: "math_floor (fl_mul (np_divide r (Finite price)) (Finite 10000)) = Inr n"
    and q: "q = max 0.001 (real_of_int n / 10000)"
    by (auto simp: calculate_trade_amount_def Let_def a_def r_def split: sum.splits)
  from math_floor_Inr [OF n] obtain x where
    x: "fl_mul (np_divide r (Finite price)) (Finite 10000) = Finite x" and nx: "n = \<lfloor>x\<rfloor>"
    by blast
  from fl_mul_Finite [OF x] obtain y where
    y: "np_divide r (Finite price) = Finite y" and xy: "x = y * 10000"
    by auto
  from np_divide_Finite [OF y] assms(1) obtain z where
    z: "r = Finite z" and yz: "y = z / price"
    by auto
  have "z \<le> max 0 (portfolio_value * MAX_PORTFOLIO_RISK - position_value)"
  proof (rule headroom_bound)
    show "py_min a (py_max (Finite 0) (fl_round (portfolio_value * MAX_PORTFOLIO_RISK - position_value))) = Finite z"
      using z by (simp add: r_def)
    show "\<bar>u\<bar> \<le> FLOAT_MAX" if "a = Finite u" for u
      using that fl_mul_Finite [of _ _ u] by (auto simp: a_def)
  qed
  then have zb: "z \<le> available_risk portfolio_value position_value"
    by (simp add: available_risk_def)
  have "real_of_int n \<le> x"
    by (simp add: nx)
  then have "real_of_int n / 10000 \<le> z / price"
    by (simp add: xy yz)
  then have "real_of_int n / 10000 * price \<le> z"
    using assms(1) by (simp add: pos_le_divide_eq)
  with zb have "real_of_int n / 10000 * price \<le> available_risk portfolio_value position_value"
    by linarith
  then show ?thesis
    using q by (auto simp: max_def)
qed

lemma no_overflow_scenario_buy: "no_overflow 100 10000 1 1 0"
  by (simp add: no_overflow_def exact_risk_amount_def available_risk_def POSITION_SIZE_PCT_def
        MAX_PORTFOLIO_RISK_def FLOAT_MAX_def)

lemma scenario_buy_quantity: "calculate_trade_amount 100 10000 1 1 0 = Inr 5"
  using calculate_trade_amount_exact [OF _ no_overflow_scenario_buy]
  by (simp add: exact_risk_amount_def available_risk_def POSITION_SIZE_PCT_def MAX_PORTFOLIO_RISK_def)

theorem calculate_trade_amount_cost_bound_witness:
  "(0::real) < 100 \<and> calculate_trade_amount 100 10000 1 1 0 = Inr 5
   \<and> ((5::real) = 0.001 \<or> 5 * 100 \<le> available_risk 10000 0)"
  using calculate_trade_amount_cost_bound [of 100 10000 1 1 0 5] scenario_buy_quantity
  by simp

section \<open>Verified properties: asset state\<close>

lemma get_strategy_state_known:
  "strategies S c = Some st \<Longrightarrow> get_strategy_state choice c S = (PyNone, S)"
  by (simp add: get_strategy_state_def)

lemma call_get_strategy_state_known:
  "strategies S c = Some st \<Longrightarrow> call_get_strategy_state choice c S = (Inr PyNone, S)"
  by (simp add: call_get_strategy_state_def get_strategy_state_known)

lemma strategies_cash_example:
  "strategies cash_example ''BTC'' =
     Some \<lparr>no = 21, price_mean = 100, position_status = CASH, buy_price = None,
           stop_loss_price = None, take_profit_price = None, active_strategy = Combined\<rparr>"
  by (simp add: cash_example_def)

text \<open>
  C1, evaluated. The first call of \<open>get_strategy_state\<close> for a coin creates the record and
  returns it. Every later call for that coin, from any state, returns \<open>None\<close> instead of
  the record, so the second price update of a coin raises TypeError at
  \<open>state["price_mean"]\<close>.
\<close>

theorem get_strategy_state_later_call_returns_none:
  "fst (get_strategy_state choice ''BTC'' (AutonomousStrategy_init 20)) = Ref ''BTC''
   \<and> fst (get_strategy_state choice2 c (snd (get_strategy_state choice1 c S))) = PyNone
   \<and> fst (update_price_mean choice1 ''BTC'' 100 (AutonomousStrategy_init 20)) = Inr ()
   \<and> fst (update_price_mean choice2 ''BTC'' 101
             (snd (update_price_mean choice1 ''BTC'' 100 (AutonomousStrategy_init 20)))) = Inl TypeError"
proof (intro conjI)
  show "fst (get_strategy_state choice ''BTC'' (AutonomousStrategy_init 20)) = Ref ''BTC''"
    by (simp add: get_strategy_state_def Let_def AutonomousStrategy_init_def)
  show "fst (get_strategy_state choice2 c (snd (get_strategy_state choice1 c S))) = PyNone"
    by (simp add: get_strategy_state_def Let_def)
  show "fst (update_price_mean choice1 ''BTC'' 100 (AutonomousStrategy_init 20)) = Inr ()"
    by (simp add: update_price_mean_def bind_exn_def call_get_strategy_state_def getitem_def
          setitem_def get_strategy_state_def AutonomousStrategy_init_def Let_def update_price_data_def)
  show "fst (update_price_mean choice2 ''BTC'' 101
          (snd (update_price_mean choice1 ''BTC'' 100 (AutonomousStrategy_init 20)))) = Inl TypeError"
    by (simp add: update_price_mean_def bind_exn_def call_get_strategy_state_def getitem_def
          setitem_def get_strategy_state_def AutonomousStrategy_init_def Let_def update_price_data_def)
qed

section \<open>Verified properties: risk levels\<close>

lemma price_buffer_zero_price_example:
  "price_buffer zero_price_example ''BTC'' =
     [Finite 0, Finite 0, Finite 0, Finite 0, Finite 0,
      Finite 0, Finite 0, Finite 0, Finite 0, Finite 0]"
  by (simp add: zero_price_example_def new_coin_example_def get_strategy_state_def
        AutonomousStrategy_init_def Let_def update_price_data_def bind_exn_def return_exn_def
        price_buffer_def RSI_PERIOD_def MACD_SLOW_def BBANDS_PERIOD_def STOCH_K_def)

lemma price_buffer_overflow_price_example:
  "price_buffer overflow_price_example ''BTC'' =
     [Finite (1 / 10 ^ 300), Finite (10 ^ 10), Finite (10 ^ 10), Finite (10 ^ 10),
      Finite (10 ^ 10), Finite (10 ^ 10), Finite (10 ^ 10), Finite (10 ^ 10),
      Finite (10 ^ 10), Finite (10 ^ 10)]"
  by (simp add: overflow_price_example_def new_coin_example_def get_strategy_state_def
        AutonomousStrategy_init_def Let_def update_price_data_def bind_exn_def return_exn_def
        price_buffer_def RSI_PERIOD_def MACD_SLOW_def BBANDS_PERIOD_def STOCH_K_def)

lemma price_buffer_nan_price_example:
  "price_buffer nan_price_example ''BTC'' =
     [Finite 100, Finite 100, Finite 100, Finite 100, Finite 100,
      Finite 100, Finite 100, Finite 100, Finite 100, NaN]"
  by (simp add: nan_price_example_def new_coin_example_def get_strategy_state_def
        AutonomousStrategy_init_def Let_def update_price_data_def bind_exn_def return_exn_def
        price_buffer_def RSI_PERIOD_def MACD_SLOW_def BBANDS_PERIOD_def STOCH_K_def)

text \<open>A volatility of nan goes through the clamp of lines 499 and 503 unchanged.\<close>

lemma clamp_nan:
  "py_max NaN b = NaN" "py_min NaN b = NaN"
  by (cases b; simp add: py_min_def py_max_def)+

text \<open>
  Whatever the buffer holds, the pair returned is either (nan, nan) or a pair of numbers
  within the bounds.
\<close>

lemma calculate_risk_levels_nan_or_bounds:
  "calculate_risk_levels c entry_price S = (NaN, NaN)
   \<or> (\<exists>sl tp. calculate_risk_levels c entry_price S = (Finite sl, Finite tp)
          \<and> 0.01 \<le> sl \<and> sl \<le> 0.05 \<and> 2.5 * sl \<le> tp)"
proof (cases "length (price_buffer S c) < 10")
  case True
  then have "calculate_risk_levels c entry_price S = (Finite 0.01, Finite 0.03)"
    by (simp add: calculate_risk_levels_def)
  moreover have "(0.01::real) \<le> 0.01 \<and> (0.01::real) \<le> 0.05 \<and> 2.5 * (0.01::real) \<le> 0.03"
    by simp
  ultimately show ?thesis by blast
next
  case False
  define v where "v = (if length (np_returns (price_buffer S c)) > 0
                       then np_std (np_returns (price_buffer S c)) else Finite 0.01)"
  define sl where "sl = py_min (py_max (fl_mul (Finite 1.5) v) (Finite 0.01)) (Finite 0.05)"
  define tp where "tp = py_max (fl_mul (Finite 2.5) sl) (Finite ((BUYING_COMMISSION + SELLING_COMMISSION) + 0.001))"
  have r: "calculate_risk_levels c entry_price S = (sl, tp)"
    using False by (simp add: calculate_risk_levels_def Let_def v_def sl_def tp_def)
  have "sl = NaN \<or> sl = Finite 0.01 \<or> sl = Finite 0.05
          \<or> (\<exists>x. sl = Finite (1.5 * x) \<and> 0.01 \<le> 1.5 * x \<and> 1.5 * x \<le> 0.05)"
    by (cases v) (auto simp: sl_def py_min_def py_max_def fl_round_def signed_inf_def)
  then have sl: "sl = NaN \<or> (\<exists>x. sl = Finite x \<and> 0.01 \<le> x \<and> x \<le> 0.05)"
    by auto
  show ?thesis
  proof (cases "sl = NaN")
    case True
    then show ?thesis
      by (simp add: r tp_def py_max_def)
  next
    case False
    with sl obtain x where x: "sl = Finite x" "0.01 \<le> x" "x \<le> 0.05"
      by blast
    have "\<bar>2.5 * x\<bar> \<le> FLOAT_MAX"
      using x(2,3) by (simp add: FLOAT_MAX_def)
    then have m: "fl_mul (Finite 2.5) sl = Finite (2.5 * x)"
      by (simp add: x(1) fl_round_within)
    define y where "y = max (2.5 * x) ((BUYING_COMMISSION + SELLING_COMMISSION) + 0.001)"
    have "tp = Finite y"
      unfolding tp_def m by (simp add: py_max_def max_def y_def)
    moreover have "2.5 * x \<le> y"
      unfolding y_def by (rule max.cobounded1)
    ultimately have "\<exists>y. tp = Finite y \<and> 2.5 * x \<le> y"
      by blast
    then show ?thesis
      using r x by auto
  qed
qed

text \<open>
  C7, evaluated. The comment of line 498 says that the stop-loss percentage is capped at
  5% and floored at 1%. After ten prices of 0 every return is 0/0, the volatility is nan,
  Python's \<open>max\<close> and \<open>min\<close> hand the nan through, and both percentages are nan: none of
  the three comparisons of the claim holds. The same pair comes back where a return
  overflows (the price 1e-300 followed by nine prices of 1e10) and where a price is nan.
\<close>

theorem calculate_risk_levels_returns_nan:
  "calculate_risk_levels ''BTC'' 100 zero_price_example = (NaN, NaN)
   \<and> \<not> np_le (Finite 0.01) (fst (calculate_risk_levels ''BTC'' 100 zero_price_example))
   \<and> \<not> np_le (fst (calculate_risk_levels ''BTC'' 100 zero_price_example)) (Finite 0.05)
   \<and> \<not> np_le (fl_mul (Finite 2.5) (fst (calculate_risk_levels ''BTC'' 100 zero_price_example)))
             (snd (calculate_risk_levels ''BTC'' 100 zero_price_example))
   \<and> calculate_risk_levels ''BTC'' 100 overflow_price_example = (NaN, NaN)
   \<and> calculate_risk_levels ''BTC'' 100 nan_price_example = (NaN, NaN)"
proof -
  have z: "np_std (np_returns (price_buffer zero_price_example ''BTC'')) = NaN"
    by (simp add: price_buffer_zero_price_example np_returns_def np_std_def fl_sub_def
          fl_round_def FLOAT_MAX_def signed_inf_def)
  have 1: "calculate_risk_levels ''BTC'' 100 zero_price_example = (NaN, NaN)"
    unfolding calculate_risk_levels_def Let_def z
    by (simp add: price_buffer_zero_price_example np_returns_def clamp_nan)
  have ov: "np_std (np_returns (price_buffer overflow_price_example ''BTC'')) = NaN"
    by (simp add: price_buffer_overflow_price_example np_returns_def np_std_def fl_sub_def
          fl_round_def FLOAT_MAX_def signed_inf_def)
  have 2: "calculate_risk_levels ''BTC'' 100 overflow_price_example = (NaN, NaN)"
    unfolding calculate_risk_levels_def Let_def ov
    by (simp add: price_buffer_overflow_price_example np_returns_def clamp_nan)
  have n: "np_std (np_returns (price_buffer nan_price_example ''BTC'')) = NaN"
    by (simp add: price_buffer_nan_price_example np_returns_def np_std_def fl_sub_def
          fl_round_def FLOAT_MAX_def signed_inf_def)
  have 3: "calculate_risk_levels ''BTC'' 100 nan_price_example = (NaN, NaN)"
    unfolding calculate_risk_levels_def Let_def n
    by (simp add: price_buffer_nan_price_example np_returns_def clamp_nan)
  show ?thesis
    by (simp add: 1 2 3)
qed

section \<open>Verified properties: the strategy functions\<close>

text \<open>
  What the strategy functions can return as the code stands. For a coin it has not seen,
  \<open>get_strategy_state\<close> returns a new record with no open position; in every other case
  \<open>state\<close> is \<open>None\<close>. A BUY branch calls \<open>set_risk_levels\<close>, which fetches its own
  \<open>state\<close> for the coin just created and so raises TypeError.
\<close>

lemma get_strategy_state_unknown:
  "strategies S c = None \<Longrightarrow>
   \<exists>S1. get_strategy_state choice c S = (Ref c, S1)
      \<and> strategies S1 c = Some \<lparr>no = 0, price_mean = 0, position_status = CASH, buy_price = None,
                                stop_loss_price = None, take_profit_price = None,
                                active_strategy = choice\<rparr>
      \<and> lookback_period S1 = lookback_period S"
  by (simp add: get_strategy_state_def Let_def)

lemma set_risk_levels_known:
  "strategies S c = Some st \<Longrightarrow> set_risk_levels choice c entry_price S = (Inl TypeError, S)"
  by (simp add: set_risk_levels_def bind_exn_def call_get_strategy_state_known setitem_def
        split: prod.splits)

lemma enter_position_known:
  "strategies S c = Some st \<Longrightarrow> fst (enter_position choice (Ref c) c price S) = Inl TypeError"
  by (simp add: enter_position_def bind_exn_def setitem_def set_risk_levels_known)

lemma mean_reversion_body_cash:
  assumes "strategies S c = Some st" and "position_status st = CASH"
  shows "fst (mean_reversion_body choice (Ref c) c price S) \<in> {Inr HOLD, Inl TypeError}"
  using assms enter_position_known [OF assms(1), of choice price]
  by (simp add: mean_reversion_body_def bind_exn_def getitem_def exit_check_def return_exn_def)

lemma macd_crossover_body_cash:
  assumes "strategies S c = Some st" and "position_status st = CASH"
  shows "fst (macd_crossover_body choice (Ref c) c price inds S) \<in> {Inr HOLD, Inl TypeError}"
  using assms enter_position_known [OF assms(1), of choice price]
  by (cases inds)
     (simp_all add: macd_crossover_body_def bind_exn_def getitem_def exit_check_def return_exn_def)

lemma rsi_body_cash:
  assumes "strategies S c = Some st" and "position_status st = CASH"
  shows "fst (rsi_body choice (Ref c) c price inds S) \<in> {Inr HOLD, Inl TypeError}"
  using assms enter_position_known [OF assms(1), of choice price]
  by (cases inds)
     (simp_all add: rsi_body_def bind_exn_def getitem_def exit_check_def return_exn_def)

lemma bollinger_bands_body_cash:
  assumes "strategies S c = Some st" and "position_status st = CASH"
  shows "fst (bollinger_bands_body choice (Ref c) c price inds S) \<in> {Inr HOLD, Inl TypeError}"
  using assms enter_position_known [OF assms(1), of choice price]
  by (cases inds)
     (simp_all add: bollinger_bands_body_def bind_exn_def getitem_def exit_check_def return_exn_def)

lemma bodies_without_state:
  "fst (mean_reversion_body choice PyNone c price S) = Inl TypeError"
  "fst (macd_crossover_body choice PyNone c price inds S) \<in> {Inr HOLD, Inl TypeError}"
  "fst (rsi_body choice PyNone c price inds S) \<in> {Inr HOLD, Inl TypeError}"
  "fst (bollinger_bands_body choice PyNone c price inds S) \<in> {Inr HOLD, Inl TypeError}"
  by (cases inds; simp add: mean_reversion_body_def macd_crossover_body_def rsi_body_def
        bollinger_bands_body_def bind_exn_def getitem_def return_exn_def)+

lemma strategy_functions_hold_or_raise:
  "fst (mean_reversion_strategy choice c price inds S) \<in> {Inr HOLD, Inl TypeError}
   \<and> fst (macd_crossover_strategy choice c price inds S) \<in> {Inr HOLD, Inl TypeError}
   \<and> fst (rsi_strategy choice c price inds S) \<in> {Inr HOLD, Inl TypeError}
   \<and> fst (bollinger_bands_strategy choice c price inds S) \<in> {Inr HOLD, Inl TypeError}"
proof (cases "strategies S c")
  case None
  from get_strategy_state_unknown [OF None, of choice] obtain S1 where
    g: "call_get_strategy_state choice c S = (Inr (Ref c), S1)"
    and s: "strategies S1 c = Some \<lparr>no = 0, price_mean = 0, position_status = CASH, buy_price = None,
                                    stop_loss_price = None, take_profit_price = None,
                                    active_strategy = choice\<rparr>"
    by (auto simp: call_get_strategy_state_def)
  show ?thesis
    using mean_reversion_body_cash [OF s] macd_crossover_body_cash [OF s] rsi_body_cash [OF s]
      bollinger_bands_body_cash [OF s]
    by (simp add: mean_reversion_strategy_def macd_crossover_strategy_def rsi_strategy_def
          bollinger_bands_strategy_def bind_exn_def g)
next
  case (Some st)
  show ?thesis
    using bodies_without_state
    by (simp add: mean_reversion_strategy_def macd_crossover_strategy_def rsi_strategy_def
          bollinger_bands_strategy_def bind_exn_def call_get_strategy_state_known [OF Some])
qed

lemma lookback_cash_example: "lookback_period cash_example = 20"
  by (simp add: cash_example_def)

lemma macd_crossover_strategy_known:
  "strategies S c = Some st \<Longrightarrow>
   macd_crossover_strategy choice c price (Some i) S = (Inl TypeError, S)"
  by (simp add: macd_crossover_strategy_def macd_crossover_body_def bind_exn_def
        call_get_strategy_state_known getitem_def)

text \<open>
  C10, evaluated. For a known coin without a position, past the warm-up and with indicators
  on which the MACD rule says BUY, \<open>combined_strategy\<close> raises TypeError: its own \<open>state\<close>
  is \<open>None\<close>. With \<open>state\<close> bound to the record, its body raises TypeError at the first
  inner call, whose \<open>state\<close> is \<open>None\<close>; no inner BUY branch is reached. On every input
  \<open>combined_strategy\<close> returns HOLD or raises TypeError, and the only change it makes to the
  object is the one of \<open>get_strategy_state\<close>, the creation of a record for a new coin.
\<close>

theorem combined_strategy_never_enters_position:
  "combined_strategy choice ''BTC'' 100 (Some bullish) cash_example = (Inl TypeError, cash_example)
   \<and> combined_body choice (Ref ''BTC'') ''BTC'' 100 (Some bullish) cash_example = (Inl TypeError, cash_example)
   \<and> snd (combined_strategy choice c price inds S) = snd (get_strategy_state choice c S)
   \<and> fst (combined_strategy choice c price inds S) \<in> {Inr HOLD, Inl TypeError}"
proof (intro conjI)
  show "combined_strategy choice ''BTC'' 100 (Some bullish) cash_example = (Inl TypeError, cash_example)"
    by (simp add: combined_strategy_def combined_body_def bind_exn_def
          call_get_strategy_state_known [OF strategies_cash_example] getitem_def)
  show "combined_body choice (Ref ''BTC'') ''BTC'' 100 (Some bullish) cash_example = (Inl TypeError, cash_example)"
    by (simp add: combined_body_def bind_exn_def getitem_def strategies_cash_example
          lookback_cash_example exit_check_def return_exn_def
          macd_crossover_strategy_known [OF strategies_cash_example])
  have both: "snd (combined_strategy choice c price inds S) = snd (get_strategy_state choice c S)
      \<and> fst (combined_strategy choice c price inds S) \<in> {Inr HOLD, Inl TypeError}"
  proof (cases "strategies S c")
    case None
    from get_strategy_state_unknown [OF None, of choice] obtain S1 where
      g: "get_strategy_state choice c S = (Ref c, S1)"
      and s: "strategies S1 c = Some \<lparr>no = 0, price_mean = 0, position_status = CASH, buy_price = None,
                                      stop_loss_price = None, take_profit_price = None,
                                      active_strategy = choice\<rparr>"
      by blast
    show ?thesis
    proof (cases inds)
      case None
      then show ?thesis
        by (simp add: combined_strategy_def combined_body_def bind_exn_def
              call_get_strategy_state_def g return_exn_def)
    next
      case (Some i)
      then show ?thesis
        by (simp add: combined_strategy_def combined_body_def bind_exn_def
              call_get_strategy_state_def g return_exn_def getitem_def s exit_check_def
              macd_crossover_strategy_known [OF s])
    qed
  next
    case (Some st)
    then show ?thesis
      by (cases inds)
         (simp_all add: combined_strategy_def combined_body_def bind_exn_def
            call_get_strategy_state_known get_strategy_state_known getitem_def return_exn_def)
  qed
  from both show "snd (combined_strategy choice c price inds S) = snd (get_strategy_state choice c S)"
    by simp
  from both show "fst (combined_strategy choice c price inds S) \<in> {Inr HOLD, Inl TypeError}"
    by simp
qed

section \<open>Verified properties: strategy scores\<close>

lemma decay_loop_all:
  "decay_loop available_strategies perf = (\<lambda>strat. perf strat * decay_factor)"
proof
  fix strat
  show "decay_loop available_strategies perf strat = perf strat * decay_factor"
    by (cases strat) (simp_all add: available_strategies_def)
qed

lemma update_strategy_performance_no_reward:
  "strategy_performance S c = Some perf \<Longrightarrow> sig = HOLD \<or> (sig = SELL \<and> profit = 0) \<Longrightarrow>
   update_strategy_performance c strat sig profit S
     = (Inr (), S\<lparr>strategy_performance := (strategy_performance S)(c \<mapsto> (\<lambda>s. perf s * decay_factor))\<rparr>)"
  by (auto simp add: update_strategy_performance_def bind_exn_def return_exn_def apply_decay_def
        decay_loop_all)

lemma repeat_update_no_reward:
  "strategy_performance S c = Some perf \<Longrightarrow> sig = HOLD \<or> (sig = SELL \<and> profit = 0) \<Longrightarrow>
   \<exists>S'. repeat_calls n (update_strategy_performance c strat sig profit) S = (Inr (), S')
       \<and> strategy_performance S' c = Some (\<lambda>s. perf s * decay_factor ^ n)"
proof (induction n arbitrary: S perf)
  case 0
  then show ?case by (simp add: return_exn_def)
next
  case (Suc n)
  let ?S1 = "S\<lparr>strategy_performance := (strategy_performance S)(c \<mapsto> (\<lambda>s. perf s * decay_factor))\<rparr>"
  have "strategy_performance ?S1 c = Some (\<lambda>s. perf s * decay_factor)" by simp
  from Suc.IH [OF this Suc.prems(2)] obtain S' where
    r: "repeat_calls n (update_strategy_performance c strat sig profit) ?S1 = (Inr (), S')"
    and p: "strategy_performance S' c = Some (\<lambda>s. perf s * decay_factor * decay_factor ^ n)"
    by blast
  have "repeat_calls (Suc n) (update_strategy_performance c strat sig profit) S = (Inr (), S')"
    by (simp add: bind_exn_def update_strategy_performance_no_reward [OF Suc.prems] r)
  moreover have "strategy_performance S' c = Some (\<lambda>s. perf s * decay_factor ^ Suc n)"
    using p by (simp add: mult.assoc)
  ultimately show ?case by blast
qed

lemma update_all_strategies_all_hold:
  "list_all (\<lambda>(strat, sig). sig = HOLD) signals \<Longrightarrow>
   update_all_strategies state c price signals S = (Inr (), S)"
  by (induction signals) (auto simp: bind_exn_def return_exn_def)

lemma price_data_cash_example: "price_data cash_example ''BTC'' = Some (replicate 21 (Finite 100))"
  by (simp add: cash_example_def)

lemma performance_cash_example: "strategy_performance cash_example ''BTC'' = Some (\<lambda>strat. 0.1)"
  by (simp add: cash_example_def)

lemma trade_count_cash_example: "strategy_trade_count cash_example ''BTC'' = Some (\<lambda>strat. 1)"
  by (simp add: cash_example_def)

lemma select_best_strategy_known:
  "strategies S c = Some st \<Longrightarrow> strategy_performance S c = Some perf \<Longrightarrow>
   strategy_trade_count S c = Some cnt \<Longrightarrow>
   select_best_strategy choice u explore c S = (Inl TypeError, S)"
  by (simp add: select_best_strategy_def bind_exn_def call_get_strategy_state_known
        available_strategies_def setitem_def)

text \<open>
  C4, as stated: after a signal-generation cycle in which no strategy signals a trade,
  each score is the starting score times the decay factor. It fails after one cycle.
  For a known coin \<open>generate_signal\<close> raises TypeError in \<open>select_best_strategy\<close> before any
  signal is computed and leaves the object as it was; and the loop that updates the
  scores, run on five HOLD signals, calls \<open>update_strategy_performance\<close> for none of them.
  The score stays 0.1, which is not 0.1 * 0.99.
\<close>

theorem idle_cycle_counterexample:
  "generate_signal talib_bullish Combined 0.5 Combined ''BTC'' 100 cash_example = (Inl TypeError, cash_example)
   \<and> update_all_strategies PyNone ''BTC'' 100 all_hold cash_example = (Inr (), cash_example)
   \<and> performance_of cash_example ''BTC'' Mean_reversion = Inr 0.1
   \<and> (0.1::real) \<noteq> 0.1 * decay_factor ^ 1"
proof (intro conjI)
  show "generate_signal talib_bullish Combined 0.5 Combined ''BTC'' 100 cash_example = (Inl TypeError, cash_example)"
    by (simp add: generate_signal_def bind_exn_def
          call_get_strategy_state_known [OF strategies_cash_example]
          calculate_indicators_def price_data_cash_example
          select_best_strategy_known [OF strategies_cash_example performance_cash_example trade_count_cash_example]
          RSI_PERIOD_def MACD_SLOW_def BBANDS_PERIOD_def STOCH_K_def)
  show "update_all_strategies PyNone ''BTC'' 100 all_hold cash_example = (Inr (), cash_example)"
    by (simp add: all_hold_def bind_exn_def return_exn_def)
  show "performance_of cash_example ''BTC'' Mean_reversion = Inr 0.1"
    by (simp add: performance_of_def performance_cash_example)
  show "(0.1::real) \<noteq> 0.1 * decay_factor ^ 1"
    by (simp add: decay_factor_def)
qed

text \<open>
  C4, amended: for every asset with scores, after \<open>n\<close> consecutive calls of
  \<open>update_strategy_performance\<close> that add no reward (a HOLD signal, or a SELL signal
  with profit 0) each strategy's score is its starting score times the decay factor to
  the power \<open>n\<close>; and the score update of a cycle whose signals are all HOLD makes no
  such call and leaves the object as it was.
\<close>

theorem score_decay_per_update:
  assumes "strategy_performance S c = Some perf"
    and "sig = HOLD \<or> (sig = SELL \<and> profit = 0)"
  shows "(\<exists>S'. repeat_calls n (update_strategy_performance c strat sig profit) S = (Inr (), S')
             \<and> (\<forall>s. performance_of S' c s = Inr (perf s * decay_factor ^ n)))
         \<and> (list_all (\<lambda>(strat, sig). sig = HOLD) signals
              \<longrightarrow> update_all_strategies state c price signals S = (Inr (), S))"
proof
  from repeat_update_no_reward [OF assms] obtain S' where
    "repeat_calls n (update_strategy_performance c strat sig profit) S = (Inr (), S')"
    and "strategy_performance S' c = Some (\<lambda>s. perf s * decay_factor ^ n)"
    by blast
  then show "\<exists>S'. repeat_calls n (update_strategy_performance c strat sig profit) S = (Inr (), S')
             \<and> (\<forall>s. performance_of S' c s = Inr (perf s * decay_factor ^ n))"
    by (auto simp: performance_of_def)
  show "list_all (\<lambda>(strat, sig). sig = HOLD) signals
          \<longrightarrow> update_all_strategies state c price signals S = (Inr (), S)"
    by (simp add: update_all_strategies_all_hold)
qed

theorem score_decay_per_update_witness:
  "strategy_performance cash_example ''BTC'' = Some (\<lambda>strat. 0.1)
   \<and> (HOLD = HOLD \<or> (HOLD = SELL \<and> (0::real) = 0))
   \<and> (\<exists>S'. repeat_calls 100 (update_strategy_performance ''BTC'' Combined HOLD 0) cash_example = (Inr (), S')
          \<and> (\<forall>s. performance_of S' ''BTC'' s = Inr (0.1 * decay_factor ^ 100)))
   \<and> 0.0366 < (0.1::real) * decay_factor ^ 100 \<and> (0.1::real) * decay_factor ^ 100 < 0.0367
   \<and> list_all (\<lambda>(strat, sig). sig = HOLD) all_hold
   \<and> update_all_strategies PyNone ''BTC'' 100 all_hold cash_example = (Inr (), cash_example)"
proof -
  have h: "list_all (\<lambda>(strat, sig). sig = HOLD) all_hold"
    by (simp add: all_hold_def)
  have n: "0.0366 < (0.1::real) * decay_factor ^ 100 \<and> (0.1::real) * decay_factor ^ 100 < 0.0367"
    by (simp add: decay_factor_def power_divide)
  show ?thesis
    using score_decay_per_update [OF performance_cash_example, of HOLD 0 100 Combined all_hold PyNone 100]
      h n performance_cash_example
    by simp
qed

section \<open>Verified properties: the ledger\<close>

lemma ensure_keys_simps:
  "cash (ensure_keys c B) = cash B"
  "trade_count (ensure_keys c B) = trade_count B"
  "profitable_trades (ensure_keys c B) = profitable_trades B"
  "trade_log (ensure_keys c B) = trade_log B"
  "strategy (ensure_keys c B) = strategy B"
  "portfolio_values (ensure_keys c B) = portfolio_values B"
  by (simp_all add: ensure_keys_def Let_def)

lemma held_ensure_keys: "held (ensure_keys c B) c' = held B c'"
  by (simp add: ensure_keys_def Let_def held_def map_add_def split: option.splits)

lemma queue_ensure_keys: "queue (ensure_keys c B) c' = queue B c'"
  by (simp add: ensure_keys_def Let_def queue_def)

lemma count_ensure_keys: "get_open_trades_count (ensure_keys c B) = get_open_trades_count B"
  by (simp add: ensure_keys_def Let_def get_open_trades_count_def)

lemma update_portfolio_value_snd:
  "snd (update_portfolio_value prices B)
     = B\<lparr>portfolio_values := portfolio_values B @ [fst (update_portfolio_value prices B)]\<rparr>"
  by (simp add: update_portfolio_value_def Let_def)

lemma current_position_value_valuation:
  "current_position_value prices (B\<lparr>portfolio_values := pvs\<rparr>) = current_position_value prices B"
  by (simp add: current_position_value_def)

lemma held_valuation: "held (B\<lparr>portfolio_values := pvs\<rparr>) c = held B c"
  by (simp add: held_def)

lemma queue_valuation: "queue (B\<lparr>portfolio_values := pvs\<rparr>) c = queue B c"
  by (simp add: queue_def)

lemma count_valuation:
  "get_open_trades_count (B\<lparr>portfolio_values := pvs\<rparr>) = get_open_trades_count B"
  by (simp add: get_open_trades_count_def)

lemma sell_rejected_state:
  assumes "calculate_trade_amount price (fst (update_portfolio_value prices B)) score total_score
             (current_position_value prices B) = Inr q"
    and "held B c < q"
  shows "simulate_trade choice c pair SELL price score total_score prices B
           = (Inr (), ensure_keys c (snd (update_portfolio_value prices B)))"
proof -
  obtain pv B1 where u: "update_portfolio_value prices B = (pv, B1)"
    by (cases "update_portfolio_value prices B")
  have B1: "B1 = B\<lparr>portfolio_values := portfolio_values B @ [pv]\<rparr>"
    using update_portfolio_value_snd [of prices B] u by simp
  have q: "calculate_trade_amount price pv score total_score (current_position_value prices B1) = Inr q"
    using assms(1) u by (simp add: B1 current_position_value_valuation)
  have h: "\<not> q \<le> held (ensure_keys c B1) c"
    using assms(2) by (simp add: held_ensure_keys B1 held_valuation)
  show ?thesis
    using h by (simp add: simulate_trade_def u q Let_def)
qed

text \<open>
  C5. For every ledger state and every SELL whose quantity, as \<open>simulate_trade\<close> computes
  it, exceeds the held quantity of the coin, the call returns without raising and without
  a trade: cash, the held quantity of every coin, the entry-price queue of every coin, the
  trade count, the count of profitable trades, the trades handed on and the strategy
  object are the same after it. What the call does change is written out: one valuation
  is appended to the risk manager's list, and a coin seen for the first time gets the
  amount 0 and an empty queue.
\<close>

theorem sell_exceeding_holdings_changes_nothing:
  assumes "calculate_trade_amount price (fst (update_portfolio_value prices B)) score total_score
             (current_position_value prices B) = Inr q"
    and "held B c < q"
  shows "\<exists>B'. simulate_trade choice c pair SELL price score total_score prices B = (Inr (), B')
            \<and> cash B' = cash B
            \<and> (\<forall>c'. held B' c' = held B c')
            \<and> (\<forall>c'. queue B' c' = queue B c')
            \<and> trade_count B' = trade_count B
            \<and> profitable_trades B' = profitable_trades B
            \<and> trade_log B' = trade_log B
            \<and> strategy B' = strategy B
            \<and> B' = ensure_keys c (B\<lparr>portfolio_values := portfolio_values B @ [fst (update_portfolio_value prices B)]\<rparr>)"
proof -
  let ?B' = "ensure_keys c (snd (update_portfolio_value prices B))"
  have "simulate_trade choice c pair SELL price score total_score prices B = (Inr (), ?B')"
    by (rule sell_rejected_state [OF assms])
  moreover have "cash ?B' = cash B" "trade_count ?B' = trade_count B"
    "profitable_trades ?B' = profitable_trades B" "trade_log ?B' = trade_log B"
    "strategy ?B' = strategy B"
    by (simp_all add: ensure_keys_simps update_portfolio_value_snd)
  moreover have "\<forall>c'. held ?B' c' = held B c'"
    by (simp add: held_ensure_keys update_portfolio_value_snd held_valuation)
  moreover have "\<forall>c'. queue ?B' c' = queue B c'"
    by (simp add: queue_ensure_keys update_portfolio_value_snd queue_valuation)
  moreover have "?B' = ensure_keys c (B\<lparr>portfolio_values := portfolio_values B @ [fst (update_portfolio_value prices B)]\<rparr>)"
    by (simp add: update_portfolio_value_snd)
  ultimately show ?thesis by blast
qed

theorem sell_exceeding_holdings_changes_nothing_witness:
  "calculate_trade_amount 100 (fst (update_portfolio_value [''BTC'' \<mapsto> 100] one_coin_example)) 1 1
       (current_position_value [''BTC'' \<mapsto> 100] one_coin_example) = Inr 5.05
   \<and> held one_coin_example ''BTC'' < 5.05
   \<and> held one_coin_example ''BTC'' = 1
   \<and> (\<exists>B'. simulate_trade Combined ''BTC'' ''BTC/USD'' SELL 100 1 1 [''BTC'' \<mapsto> 100] one_coin_example = (Inr (), B')
            \<and> cash B' = cash one_coin_example
            \<and> (\<forall>c'. held B' c' = held one_coin_example c')
            \<and> (\<forall>c'. queue B' c' = queue one_coin_example c')
            \<and> trade_count B' = trade_count one_coin_example
            \<and> profitable_trades B' = profitable_trades one_coin_example
            \<and> trade_log B' = trade_log one_coin_example
            \<and> strategy B' = strategy one_coin_example
            \<and> B' = ensure_keys ''BTC'' (one_coin_example\<lparr>portfolio_values := portfolio_values one_coin_example
                       @ [fst (update_portfolio_value [''BTC'' \<mapsto> 100] one_coin_example)]\<rparr>))"
proof -
  have n: "no_overflow 100 10100 1 1 100"
    by (simp add: no_overflow_def exact_risk_amount_def available_risk_def POSITION_SIZE_PCT_def
          MAX_PORTFOLIO_RISK_def FLOAT_MAX_def)
  have "calculate_trade_amount 100 10100 1 1 100 = Inr 5.05"
    using calculate_trade_amount_exact [OF _ n]
    by (simp add: exact_risk_amount_def available_risk_def POSITION_SIZE_PCT_def MAX_PORTFOLIO_RISK_def)
  then have q: "calculate_trade_amount 100 (fst (update_portfolio_value [''BTC'' \<mapsto> 100] one_coin_example)) 1 1
       (current_position_value [''BTC'' \<mapsto> 100] one_coin_example) = Inr 5.05"
    by (simp add: update_portfolio_value_def current_position_value_def one_coin_example_def
          price_of_def)
  have h: "held one_coin_example ''BTC'' = 1"
    by (simp add: held_def one_coin_example_def)
  have l: "held one_coin_example ''BTC'' < 5.05"
    by (simp add: h)
  show ?thesis
    using sell_exceeding_holdings_changes_nothing [OF q l, of Combined "''BTC/USD''"] q h l
    by simp
qed

lemma filter_update_le:
  "length (filter P (AList.update k v al)) \<le> Suc (length (filter P al))"
  by (induction al) (auto simp: AList.update.simps)

text \<open>
  The state after a BUY attempt: only the valuation appended (the sizing raised), or the
  coin's keys added as well (the BUY was rejected), or, with fewer open positions than the
  maximum before it, one amount of the holdings changed.
\<close>

lemma simulate_trade_buy_cases:
  "snd (simulate_trade choice c pair BUY price score total_score prices B) = snd (update_portfolio_value prices B)
   \<or> snd (simulate_trade choice c pair BUY price score total_score prices B)
        = ensure_keys c (snd (update_portfolio_value prices B))
   \<or> (get_open_trades_count B < MAX_OPEN_TRADES
       \<and> (\<exists>v. get_open_trades_count (snd (simulate_trade choice c pair BUY price score total_score prices B))
              = length (filter (\<lambda>(c, amount). amount > 0)
                   (AList.update c v (holdings (ensure_keys c (snd (update_portfolio_value prices B))))))))"
proof -
  obtain pv B1 where u: "update_portfolio_value prices B = (pv, B1)"
    by (cases "update_portfolio_value prices B")
  have B1: "B1 = B\<lparr>portfolio_values := portfolio_values B @ [pv]\<rparr>"
    using update_portfolio_value_snd [of prices B] u by simp
  have cnt: "get_open_trades_count (ensure_keys c B1) = get_open_trades_count B"
    by (simp add: count_ensure_keys B1 count_valuation)
  show ?thesis
  proof (cases "calculate_trade_amount price pv score total_score (current_position_value prices B1)")
    case (Inl e)
    then show ?thesis by (simp add: simulate_trade_def u)
  next
    case (Inr q)
    then show ?thesis
      using cnt by (auto simp add: simulate_trade_def u Let_def get_open_trades_count_def)
  qed
qed

lemma simulate_trade_buy_count:
  assumes "get_open_trades_count B \<le> MAX_OPEN_TRADES"
  shows "get_open_trades_count (snd (simulate_trade choice c pair BUY price score total_score prices B))
           \<le> MAX_OPEN_TRADES"
proof -
  let ?B' = "snd (simulate_trade choice c pair BUY price score total_score prices B)"
  let ?B1 = "snd (update_portfolio_value prices B)"
  have c1: "get_open_trades_count ?B1 = get_open_trades_count B"
    by (simp add: update_portfolio_value_snd count_valuation)
  have c3: "get_open_trades_count (ensure_keys c ?B1) = get_open_trades_count B"
    by (simp add: count_ensure_keys c1)
  from simulate_trade_buy_cases [of choice c pair price score total_score prices B]
  consider "?B' = ?B1" | "?B' = ensure_keys c ?B1"
    | v where "get_open_trades_count B < MAX_OPEN_TRADES"
        "get_open_trades_count ?B' = length (filter (\<lambda>(c, amount). amount > 0)
                   (AList.update c v (holdings (ensure_keys c ?B1))))"
    by blast
  then show ?thesis
  proof cases
    case 1
    then show ?thesis using assms c1 by simp
  next
    case 2
    then show ?thesis using assms c3 by simp
  next
    case 3
    have a: "get_open_trades_count ?B'
               \<le> Suc (length (filter (\<lambda>(c, amount). amount > 0) (holdings (ensure_keys c ?B1))))"
      unfolding 3(2) by (rule filter_update_le)
    have b: "length (filter (\<lambda>(c, amount). amount > 0) (holdings (ensure_keys c ?B1)))
               = get_open_trades_count (ensure_keys c ?B1)"
      by (simp add: get_open_trades_count_def)
    from a b c3 3(1) show ?thesis by simp
  qed
qed

lemma buy_attempts_count:
  "get_open_trades_count B \<le> MAX_OPEN_TRADES \<Longrightarrow>
   get_open_trades_count (buy_attempts choice attempts B) \<le> MAX_OPEN_TRADES"
proof (induction attempts arbitrary: B)
  case Nil
  then show ?case by simp
next
  case (Cons a attempts)
  obtain c pair price score total_score prices where a: "a = (c, pair, price, score, total_score, prices)"
    by (cases a)
  show ?case
    unfolding a buy_attempts.simps
    by (rule Cons.IH) (rule simulate_trade_buy_count [OF Cons.prems])
qed

text \<open>
  C6. From a ledger with at most \<open>MAX_OPEN_TRADES\<close> open positions (the new bot has none),
  after every prefix of every sequence of BUY attempts the number of open positions is at
  most \<open>MAX_OPEN_TRADES\<close>; and a BUY attempted while the number is at the maximum is
  rejected: cash, the held quantity and the queue of every coin and the trades handed on
  are as before.
\<close>

theorem open_positions_never_exceed_maximum:
  assumes "get_open_trades_count B \<le> MAX_OPEN_TRADES"
  shows "(\<forall>n. get_open_trades_count (buy_attempts choice (take n attempts) B) \<le> MAX_OPEN_TRADES)
         \<and> (get_open_trades_count B = MAX_OPEN_TRADES \<longrightarrow>
              cash (snd (simulate_trade choice c pair BUY price score total_score prices B)) = cash B
              \<and> (\<forall>c'. held (snd (simulate_trade choice c pair BUY price score total_score prices B)) c' = held B c')
              \<and> (\<forall>c'. queue (snd (simulate_trade choice c pair BUY price score total_score prices B)) c' = queue B c')
              \<and> trade_log (snd (simulate_trade choice c pair BUY price score total_score prices B)) = trade_log B)"
proof (intro conjI allI impI)
  fix n
  show "get_open_trades_count (buy_attempts choice (take n attempts) B) \<le> MAX_OPEN_TRADES"
    by (rule buy_attempts_count [OF assms])
next
  assume full: "get_open_trades_count B = MAX_OPEN_TRADES"
  let ?B' = "snd (simulate_trade choice c pair BUY price score total_score prices B)"
  let ?B1 = "snd (update_portfolio_value prices B)"
  from simulate_trade_buy_cases [of choice c pair price score total_score prices B] full
  have cases: "?B' = ?B1 \<or> ?B' = ensure_keys c ?B1"
    by auto
  have 1: "cash ?B1 = cash B" "trade_log ?B1 = trade_log B"
    "held ?B1 c' = held B c'" "queue ?B1 c' = queue B c'" for c'
    by (simp_all add: update_portfolio_value_snd held_valuation queue_valuation)
  show "cash ?B' = cash B"
    using cases 1 by (auto simp: ensure_keys_simps)
  show "trade_log ?B' = trade_log B"
    using cases 1 by (auto simp: ensure_keys_simps)
  show "held ?B' c' = held B c'" for c'
    using cases 1 by (auto simp: held_ensure_keys)
  show "queue ?B' c' = queue B c'" for c'
    using cases 1 by (auto simp: queue_ensure_keys)
qed

theorem open_positions_never_exceed_maximum_witness:
  "get_open_trades_count five_coins_example \<le> MAX_OPEN_TRADES
   \<and> get_open_trades_count five_coins_example = MAX_OPEN_TRADES
   \<and> calculate_trade_amount 100 (fst (update_portfolio_value flat_prices five_coins_example)) 1 1
        (current_position_value flat_prices five_coins_example) = Inr 5.25
   \<and> 5.25 * 100 * (1 + BUYING_COMMISSION) \<le> cash five_coins_example
   \<and> current_position_value flat_prices five_coins_example + 5.25 * 100
        \<le> fst (update_portfolio_value flat_prices five_coins_example) * MAX_PORTFOLIO_RISK
   \<and> (\<forall>n. get_open_trades_count
              (buy_attempts Combined (take n [(''DOT'', ''DOT/USD'', 100, 1, 1, flat_prices)]) five_coins_example)
            \<le> MAX_OPEN_TRADES)
   \<and> cash (snd (simulate_trade Combined ''DOT'' ''DOT/USD'' BUY 100 1 1 flat_prices five_coins_example))
        = cash five_coins_example
   \<and> (\<forall>c'. held (snd (simulate_trade Combined ''DOT'' ''DOT/USD'' BUY 100 1 1 flat_prices five_coins_example)) c'
              = held five_coins_example c')
   \<and> (\<forall>c'. queue (snd (simulate_trade Combined ''DOT'' ''DOT/USD'' BUY 100 1 1 flat_prices five_coins_example)) c'
              = queue five_coins_example c')
   \<and> trade_log (snd (simulate_trade Combined ''DOT'' ''DOT/USD'' BUY 100 1 1 flat_prices five_coins_example))
        = trade_log five_coins_example"
proof -
  have full: "get_open_trades_count five_coins_example = MAX_OPEN_TRADES"
    by (simp add: get_open_trades_count_def five_coins_example_def MAX_OPEN_TRADES_def)
  then have le: "get_open_trades_count five_coins_example \<le> MAX_OPEN_TRADES"
    by simp
  have pv: "fst (update_portfolio_value flat_prices five_coins_example) = 10500"
    by (simp add: update_portfolio_value_def five_coins_example_def flat_prices_def price_of_def)
  have cpv: "current_position_value flat_prices five_coins_example = 500"
    by (simp add: current_position_value_def five_coins_example_def flat_prices_def price_of_def)
  have n: "no_overflow 100 10500 1 1 500"
    by (simp add: no_overflow_def exact_risk_amount_def available_risk_def POSITION_SIZE_PCT_def
          MAX_PORTFOLIO_RISK_def FLOAT_MAX_def)
  have q: "calculate_trade_amount 100 10500 1 1 500 = Inr 5.25"
    using calculate_trade_amount_exact [OF _ n]
    by (simp add: exact_risk_amount_def available_risk_def POSITION_SIZE_PCT_def MAX_PORTFOLIO_RISK_def)
  have c: "cash five_coins_example = 10000"
    by (simp add: five_coins_example_def)
  show ?thesis
    using open_positions_never_exceed_maximum [OF le,
        of Combined "[(''DOT'', ''DOT/USD'', 100, 1, 1, flat_prices)]" "''DOT''" "''DOT/USD''" 100 1 1 flat_prices]
      full le
    by (simp add: pv cpv q c BUYING_COMMISSION_def MAX_PORTFOLIO_RISK_def)
qed









end
